theory Spec2Isabelle
  imports Complex_Main "HOL-Library.Sublist"
begin

section \<open>The dashboard update scheduler (server entry module)\<close>

subsection \<open>JavaScript numbers and \<open>parseInt\<close>\<close>

text \<open>
  The scheduler's numbers come from \<^verbatim>\<open>parseInt(process.env.X || d) * 1000\<close>. A JavaScript
  number that \<^verbatim>\<open>parseInt\<close> produces is an integer or \<^verbatim>\<open>NaN\<close>; \<open>None\<close> stands for
  \<^verbatim>\<open>NaN\<close>. Integers are unbounded here, which agrees with the double arithmetic of the
  runtime below \<open>2 ^ 53\<close>.
\<close>

type_synonym jsnum = "int option"

text \<open>
  A string is the list of its bytes in UTF-8, as the environment holds it. The white
  space that \<^verbatim>\<open>parseInt\<close> skips is \<^verbatim>\<open>StrWhiteSpaceChar\<close>: the ASCII characters TAB, LF, VT, FF,
  CR and space, and, in two or three bytes, U+00A0, U+1680, U+2000 to U+200A, U+2028,
  U+2029, U+202F, U+205F, U+3000 and U+FEFF.
\<close>

definition isStrWhiteSpace :: "char \<Rightarrow> bool" where
  "isStrWhiteSpace c =
     (c = CHR 0x09 \<or> c = CHR 0x0A \<or> c = CHR 0x0B \<or> c = CHR 0x0C \<or> c = CHR 0x0D \<or> c = CHR 0x20)"

definition isStrWhiteSpace2 :: "char \<Rightarrow> char \<Rightarrow> bool" where
  "isStrWhiteSpace2 a b = (a = CHR 0xC2 \<and> b = CHR 0xA0)"

definition isStrWhiteSpace3 :: "char \<Rightarrow> char \<Rightarrow> char \<Rightarrow> bool" where
  "isStrWhiteSpace3 a b c =
     ((a = CHR 0xE1 \<and> b = CHR 0x9A \<and> c = CHR 0x80)
      \<or> (a = CHR 0xE2 \<and> b = CHR 0x80 \<and> (128 \<le> (of_char c :: nat) \<and> (of_char c :: nat) \<le> 138))
      \<or> (a = CHR 0xE2 \<and> b = CHR 0x80 \<and> (c = CHR 0xA8 \<or> c = CHR 0xA9 \<or> c = CHR 0xAF))
      \<or> (a = CHR 0xE2 \<and> b = CHR 0x81 \<and> c = CHR 0x9F)
      \<or> (a = CHR 0xE3 \<and> b = CHR 0x80 \<and> c = CHR 0x80)
      \<or> (a = CHR 0xEF \<and> b = CHR 0xBB \<and> c = CHR 0xBF))"

fun trimStart :: "string \<Rightarrow> string" where
  "trimStart (a # b # c # s) =
     (if isStrWhiteSpace a then trimStart (b # c # s)
      else if isStrWhiteSpace2 a b then trimStart (c # s)
      else if isStrWhiteSpace3 a b c then trimStart s
      else a # b # c # s)"
| "trimStart [a, b] =
     (if isStrWhiteSpace a then trimStart [b]
      else if isStrWhiteSpace2 a b then []
      else [a, b])"
| "trimStart [a] = (if isStrWhiteSpace a then [] else [a])"
| "trimStart [] = []"

definition digitOf :: "nat \<Rightarrow> char \<Rightarrow> nat option" where
  "digitOf radix c =
     (let n = (of_char c :: nat);
          v = (if 48 \<le> n \<and> n \<le> 57 then Some (n - 48)
               else if 97 \<le> n \<and> n \<le> 122 then Some (n - 87)
               else if 65 \<le> n \<and> n \<le> 90 then Some (n - 55)
               else None)
      in case v of None \<Rightarrow> None | Some d \<Rightarrow> if d < radix then Some d else None)"

text \<open>The longest prefix of digits, read in the radix; \<open>None\<close> when there is no digit.\<close>

fun digitsValue :: "nat \<Rightarrow> string \<Rightarrow> nat option \<Rightarrow> nat option" where
  "digitsValue radix [] acc = acc"
| "digitsValue radix (c # cs) acc =
     (case digitOf radix c of
        None \<Rightarrow> acc
      | Some d \<Rightarrow> digitsValue radix cs (Some ((case acc of None \<Rightarrow> 0 | Some a \<Rightarrow> a) * radix + d)))"

text \<open>
  \<^verbatim>\<open>parseInt(string)\<close> with no radix argument: leading white space is dropped, a sign is
  read, a \<^verbatim>\<open>0x\<close> prefix selects radix 16, and the digits up to the first other character
  are the value.
\<close>

definition parseInt :: "string \<Rightarrow> jsnum" where
  "parseInt input =
     (let s = trimStart input;
          neg = (case s of [] \<Rightarrow> False | c # _ \<Rightarrow> c = CHR ''-'');
          s1 = (case s of [] \<Rightarrow> s | c # cs \<Rightarrow> if c = CHR ''+'' \<or> c = CHR ''-'' then cs else s);
          hex = (take 2 s1 = ''0x'' \<or> take 2 s1 = ''0X'');
          s2 = (if hex then drop 2 s1 else s1);
          radix = (if hex then 16 else 10)
      in case digitsValue radix s2 None of
           None \<Rightarrow> None
         | Some n \<Rightarrow> Some (if neg then - int n else int n))"

text \<open>
  \<^verbatim>\<open>parseInt(process.env.X || d)\<close>: an unset variable is \<^verbatim>\<open>undefined\<close> and an empty one
  is the empty string, both falsy, so the numeric default \<open>d\<close> is parsed (and is itself).
\<close>

definition parseIntEnv :: "string option \<Rightarrow> int \<Rightarrow> jsnum" where
  "parseIntEnv env d =
     (case env of
        None \<Rightarrow> Some d
      | Some s \<Rightarrow> if s = [] then Some d else parseInt s)"

definition times :: "jsnum \<Rightarrow> int \<Rightarrow> jsnum" where
  "times x k = map_option (\<lambda>n. n * k) x"

subsection \<open>Configuration\<close>

record update_config =
  initialInterval :: jsnum
  minInterval :: int
  maxInterval :: int
  loadFactorThreshold :: jsnum
  scaleFactor :: rat

text \<open>
  \<^verbatim>\<open>DASHBOARD_UPDATE_CONFIG\<close>, as a function of the two environment variables
  \<^verbatim>\<open>DASHBOARD_UPDATE_INTERVAL\<close> and \<^verbatim>\<open>DASHBOARD_LOAD_THRESHOLD\<close>.
\<close>

definition DASHBOARD_UPDATE_CONFIG :: "string option \<Rightarrow> string option \<Rightarrow> update_config" where
  "DASHBOARD_UPDATE_CONFIG envInterval envThreshold =
     \<lparr> initialInterval = times (parseIntEnv envInterval 30) 1000,
       minInterval = 10 * 1000,
       maxInterval = 120 * 1000,
       loadFactorThreshold = parseIntEnv envThreshold 20,
       scaleFactor = 3 / 2 \<rparr>"

subsection \<open>Timers and the module state\<close>

text \<open>
  The module keeps \<^verbatim>\<open>dashboardUpdateInterval\<close> and \<^verbatim>\<open>updateIntervalId\<close>; the runtime keeps
  the clock and the armed timers. A timer has a handle (a number handed out in order;
  a handle object is always truthy, so \<^verbatim>\<open>if (updateIntervalId)\<close> tests for \<open>Some\<close>), the
  callback it calls, the delay it was armed with, whether it repeats (\<^verbatim>\<open>setInterval\<close>) or
  fires once (\<^verbatim>\<open>setTimeout\<close>), and the time in milliseconds at which it is due.
  \<open>connectedAdmins\<close> is the load of the environment (the number of connected
  administrator sessions that \<open>loadFactorThreshold\<close> speaks of), \<open>broadcasts\<close> counts the
  calls of \<^verbatim>\<open>broadcastDashboardUpdates\<close>, \<open>closing\<close> says that the HTTP server was asked to
  close and \<open>exited\<close> that the process has exited. Calls of the logger change none of
  this and are left out.
\<close>

datatype callback = BroadcastTick | Readjust | ForceExit

datatype timer =
  Timer (t_handle: nat) (t_callback: callback) (t_delay: jsnum) (t_repeats: bool) (t_due: int)

record server =
  dashboardUpdateInterval :: jsnum
  updateIntervalId :: "nat option"
  timers :: "timer list"
  nextTimer :: nat
  connectedAdmins :: nat
  broadcasts :: nat
  closing :: bool
  exited :: bool
  now :: int

text \<open>
  The delay a timer runs with: a delay that is \<^verbatim>\<open>NaN\<close>, below 1 or above \<open>2 ^ 31 - 1\<close> is
  set to 1 by the runtime.
\<close>

definition effectiveDelay :: "jsnum \<Rightarrow> int" where
  "effectiveDelay d =
     (case d of None \<Rightarrow> 1 | Some v \<Rightarrow> if v < 1 \<or> 2147483647 < v then 1 else v)"

text \<open>\<^verbatim>\<open>setInterval\<close> and \<^verbatim>\<open>setTimeout\<close> arm a timer and return its handle.\<close>

definition setInterval :: "callback \<Rightarrow> jsnum \<Rightarrow> server \<Rightarrow> nat \<times> server" where
  "setInterval cb d s =
     (nextTimer s,
      s\<lparr>timers := timers s @ [Timer (nextTimer s) cb d True (now s + effectiveDelay d)],
        nextTimer := Suc (nextTimer s)\<rparr>)"

definition setTimeout :: "callback \<Rightarrow> jsnum \<Rightarrow> server \<Rightarrow> nat \<times> server" where
  "setTimeout cb d s =
     (nextTimer s,
      s\<lparr>timers := timers s @ [Timer (nextTimer s) cb d False (now s + effectiveDelay d)],
        nextTimer := Suc (nextTimer s)\<rparr>)"

definition clearInterval :: "nat \<Rightarrow> server \<Rightarrow> server" where
  "clearInterval h s = s\<lparr>timers := filter (\<lambda>t. t_handle t \<noteq> h) (timers s)\<rparr>"

text \<open>
  \<^verbatim>\<open>adjustUpdateInterval\<close>: the interval is set to the initial one, the timer in
  \<^verbatim>\<open>updateIntervalId\<close> is cleared and a new one is armed. Nothing of the load, of
  \<open>minInterval\<close>, \<open>maxInterval\<close>, \<open>loadFactorThreshold\<close> or \<open>scaleFactor\<close> is read.
\<close>

definition adjustUpdateInterval :: "update_config \<Rightarrow> server \<Rightarrow> server" where
  "adjustUpdateInterval cfg s =
     (let s1 = s\<lparr>dashboardUpdateInterval := initialInterval cfg\<rparr>;
          s2 = (case updateIntervalId s1 of None \<Rightarrow> s1 | Some h \<Rightarrow> clearInterval h s1);
          (h', s3) = setInterval BroadcastTick (dashboardUpdateInterval s2) s2
      in s3\<lparr>updateIntervalId := Some h'\<rparr>)"

text \<open>
  The module's top level, at time 0: the interval starts at the initial one, the
  broadcast timer is armed and kept in \<^verbatim>\<open>updateIntervalId\<close>, and a second timer, whose
  handle is not kept, calls \<^verbatim>\<open>adjustUpdateInterval\<close> every five minutes.
\<close>

definition boot :: "update_config \<Rightarrow> server" where
  "boot cfg =
     (let s0 = \<lparr> dashboardUpdateInterval = initialInterval cfg, updateIntervalId = None,
                 timers = [], nextTimer = 0, connectedAdmins = 0, broadcasts = 0,
                 closing = False, exited = False, now = 0 \<rparr>;
          (h, s1) = setInterval BroadcastTick (dashboardUpdateInterval s0) s0;
          s2 = s1\<lparr>updateIntervalId := Some h\<rparr>;
          (_, s3) = setInterval Readjust (Some (5 * 60 * 1000)) s2
      in s3)"

text \<open>
  \<^verbatim>\<open>gracefulShutdown\<close>: the timer in \<^verbatim>\<open>updateIntervalId\<close> is cleared, the server is asked to
  close, and a timeout of ten seconds is armed that exits the process. When the server
  and then the database connection have closed, the process exits as well.
\<close>

definition gracefulShutdown :: "server \<Rightarrow> server" where
  "gracefulShutdown s =
     (let s1 = (case updateIntervalId s of None \<Rightarrow> s | Some h \<Rightarrow> clearInterval h s);
          s2 = s1\<lparr>closing := True\<rparr>;
          (_, s3) = setTimeout ForceExit (Some 10000) s2
      in s3)"

text \<open>
  What the runtime does: an armed timer fires, a signal arrives, the connections of a
  closing server have closed, the load changes. A signal and the closing of the
  connections come with the time that has passed since the last event.
\<close>

datatype input = TimerFires nat | ShutdownSignal nat | ConnectionsClosed nat | AdminsConnected nat

text \<open>
  Time: a timer fires at the time it is due, and only when no other armed timer is due
  before it; an event from outside arrives after \<open>dt\<close> milliseconds only when no armed
  timer is due before then. Two events due at the same time come in either order.
\<close>

definition dueFirst :: "int \<Rightarrow> server \<Rightarrow> bool" where
  "dueFirst t s = list_all (\<lambda>u. t \<le> t_due u) (timers s)"

text \<open>
  After its callback a repeating timer that is still armed is due again one delay
  later; a timer that fires once is gone.
\<close>

definition reschedule :: "timer \<Rightarrow> server \<Rightarrow> server" where
  "reschedule t s =
     s\<lparr>timers :=
         (if t_repeats t
          then map (\<lambda>u. if t_handle u = t_handle t
                         then Timer (t_handle u) (t_callback u) (t_delay u) (t_repeats u)
                                (now s + effectiveDelay (t_delay u))
                         else u) (timers s)
          else filter (\<lambda>u. t_handle u \<noteq> t_handle t) (timers s))\<rparr>"

definition fire :: "update_config \<Rightarrow> nat \<Rightarrow> server \<Rightarrow> server" where
  "fire cfg h s =
     (case find (\<lambda>t. t_handle t = h) (timers s) of
        None \<Rightarrow> s
      | Some t \<Rightarrow>
          if \<not> dueFirst (t_due t) s then s
          else
            (let s1 = s\<lparr>now := max (now s) (t_due t)\<rparr>;
                 s2 = (case t_callback t of
                         BroadcastTick \<Rightarrow> s1\<lparr>broadcasts := Suc (broadcasts s1)\<rparr>
                       | Readjust \<Rightarrow> adjustUpdateInterval cfg s1
                       | ForceExit \<Rightarrow> s1\<lparr>exited := True\<rparr>)
             in reschedule t s2))"

definition step :: "update_config \<Rightarrow> server \<Rightarrow> input \<Rightarrow> server" where
  "step cfg s i =
     (if exited s then s
      else case i of
             TimerFires h \<Rightarrow> fire cfg h s
           | ShutdownSignal dt \<Rightarrow>
               if dueFirst (now s + int dt) s then gracefulShutdown (s\<lparr>now := now s + int dt\<rparr>)
               else s
           | ConnectionsClosed dt \<Rightarrow>
               if dueFirst (now s + int dt) s \<and> closing s
               then s\<lparr>now := now s + int dt, exited := True\<rparr>
               else s
           | AdminsConnected n \<Rightarrow> s\<lparr>connectedAdmins := n\<rparr>)"

definition run :: "update_config \<Rightarrow> input list \<Rightarrow> server" where
  "run cfg is = foldl (step cfg) (boot cfg) is"

text \<open>The armed timers that call the broadcast job, and those that readjust.\<close>

definition broadcastTimers :: "server \<Rightarrow> timer list" where
  "broadcastTimers s = filter (\<lambda>t. t_callback t = BroadcastTick) (timers s)"

definition readjustTimers :: "server \<Rightarrow> timer list" where
  "readjustTimers s = filter (\<lambda>t. t_callback t = Readjust) (timers s)"

text \<open>
  Every armed broadcast timer is the one whose handle the module holds. This is what
  lets one \<^verbatim>\<open>clearInterval(updateIntervalId)\<close> stop the broadcasts.
\<close>

definition tracked :: "server \<Rightarrow> bool" where
  "tracked s =
     (case updateIntervalId s of
        None \<Rightarrow> False
      | Some h \<Rightarrow> list_all (\<lambda>t. t_handle t = h) (broadcastTimers s))"

text \<open>The invariant of the specification: the interval is a number between the bounds.\<close>

definition withinBounds :: "update_config \<Rightarrow> server \<Rightarrow> bool" where
  "withinBounds cfg s =
     (case dashboardUpdateInterval s of
        None \<Rightarrow> False
      | Some v \<Rightarrow> minInterval cfg \<le> v \<and> v \<le> maxInterval cfg)"

text \<open>
  The interval the specification asks of a reconfiguration, in its words: under load
  above the threshold the current interval times the scale factor, capped at the
  maximum; otherwise the initial interval.
\<close>

definition specReconfigure :: "update_config \<Rightarrow> nat \<Rightarrow> rat \<Rightarrow> rat" where
  "specReconfigure cfg load current =
     (case loadFactorThreshold cfg of
        None \<Rightarrow> (case initialInterval cfg of None \<Rightarrow> current | Some i \<Rightarrow> of_int i)
      | Some th \<Rightarrow>
          if th < int load then min (current * scaleFactor cfg) (of_int (maxInterval cfg))
          else (case initialInterval cfg of None \<Rightarrow> current | Some i \<Rightarrow> of_int i))"

text \<open>The broadcast timer of the start fires \<open>n\<close> times in a row.\<close>

definition ticks :: "nat \<Rightarrow> input list" where
  "ticks n = replicate n (TimerFires 0)"

section \<open>The admin user-management handlers\<close>

subsection \<open>Documents, requests and responses\<close>

type_synonym ident = string

text \<open>A thrown \<^verbatim>\<open>Error\<close> object; the handlers read only its \<^verbatim>\<open>message\<close>.\<close>

datatype error = Error string

fun message :: "error \<Rightarrow> string" where
  "message (Error m) = m"

record history_entry =
  h_status :: string
  h_reason :: "string option"
  h_updatedBy :: ident
  h_timestamp :: nat

text \<open>
  What the handlers read and write of a seller and of a customer, whether the object is
  a document of the collection or a profile of the realtime service. A field that may
  be missing is an option; \<open>fromCache\<close> is the flag a profile carries and a document of the
  collection lacks.
\<close>

record seller =
  s_id :: ident
  s_status :: string
  s_statusHistory :: "history_entry list option"
  s_documents :: "(string \<times> string) list option"
  s_businessName :: string
  s_gstin :: "string option"
  s_fromCache :: "bool option"

record customer =
  c_id :: ident
  c_status :: string
  c_statusHistory :: "history_entry list option"
  c_addresses :: "string list option"
  c_fromCache :: "bool option"

text \<open>Documents of the agreement and rate card collections are not looked into.\<close>

type_synonym agreement = string
type_synonym rateCard = string

record kycDetails =
  kyc_status :: string
  kyc_documents :: "(string \<times> string) list"
  kyc_businessName :: string
  kyc_gstin :: "string option"

text \<open>An entry of the realtime listing: a profile, or the placeholder \<^verbatim>\<open>{ id, error }\<close>.\<close>

datatype 'p entry = Fetched "'p option" | Placeholder ident string

datatype body =
    SellerBody seller
  | CustomerBody customer
  | SellerDetailsBody seller kycDetails "agreement list" "rateCard list" bool
  | CustomerDetailsBody customer "string list" bool
  | RealtimeBody "seller entry list" "customer entry list" nat

text \<open>
  A handler ends with \<^verbatim>\<open>res.status(n).json(body)\<close> or with
  \<^verbatim>\<open>next(new AppError(message, n))\<close>.
\<close>

datatype response = Json nat body | Next string nat

text \<open>What is sent over a socket.\<close>

datatype payload =
    SellerStatusChanged ident string ident nat
  | CustomerStatusChanged ident string ident nat
  | SellerProfile "seller option"
  | CustomerProfile "customer option"

text \<open>
  A status request: \<^verbatim>\<open>req.params.id\<close>, \<^verbatim>\<open>req.body.status\<close>, \<^verbatim>\<open>req.body.reason\<close>,
  \<^verbatim>\<open>req.user.id\<close> (set by the authentication middleware of these admin routes), and the
  two readings of the clock by \<^verbatim>\<open>new Date()\<close>.
\<close>

record status_request =
  param_id :: ident
  body_status :: string
  body_reason :: "string option"
  user_id :: ident
  historyDate :: nat
  emitDate :: nat

text \<open>A field of the body of the realtime request: missing, an array, or anything else.\<close>

datatype idsField = Missing | Array "ident list" | NotAnArray

record realtime_request =
  body_sellerIds :: idsField
  body_customerIds :: idsField
  responseDate :: nat

subsection \<open>Collaborators and the trace of a handler\<close>

datatype model = SellerModel | CustomerModel | AgreementModel | RateCardModel

datatype call =
    FindById model ident
  | Find model ident
  | Save model ident
  | InvalidateCachePattern string
  | GetIO
  | GetProfile model ident
  | Emit string string payload

text \<open>
  How a call ended for the handler: it returned, it threw (a promise that is awaited
  and rejects is a throw), or, for a call that is not awaited, it handed back a promise
  that is still pending, so that what it started has yet to happen.
\<close>

datatype outcome = Returned | Threw error | Pending

datatype event = Call call outcome | LogInfo string | LogWarn string | LogError string

text \<open>
  The modules the handlers import are not part of this development: the models of the
  document store, the cache helper, the socket registry and the realtime profile
  services. Each is a parameter: a function on the state \<open>'w\<close> of the world outside the
  handler that returns or throws. A rejected promise that is awaited is a throw.

  The handlers call \<^verbatim>\<open>invalidateCachePattern\<close> without \<^verbatim>\<open>await\<close>. Such a call can throw at
  once; otherwise it returns at once, either with its work done (\<open>Settled\<close>, a helper that
  is synchronous) or with a promise for work that is under way (\<open>Unsettled\<close>). The
  handler drops what is returned and goes on in both cases, and a rejection of the
  promise never reaches it.
\<close>

datatype settlement = Settled | Unsettled

record 'w collab =
  Seller_findById :: "ident \<Rightarrow> 'w \<Rightarrow> (error + seller option) \<times> 'w"
  Customer_findById :: "ident \<Rightarrow> 'w \<Rightarrow> (error + customer option) \<times> 'w"
  seller_save :: "seller \<Rightarrow> 'w \<Rightarrow> (error + seller) \<times> 'w"
  customer_save :: "customer \<Rightarrow> 'w \<Rightarrow> (error + customer) \<times> 'w"
  Agreement_find :: "ident \<Rightarrow> 'w \<Rightarrow> (error + agreement list) \<times> 'w"
  RateCard_find :: "ident \<Rightarrow> 'w \<Rightarrow> (error + rateCard list) \<times> 'w"
  invalidateCachePattern :: "string \<Rightarrow> 'w \<Rightarrow> (error + settlement) \<times> 'w"
  getIO :: "'w \<Rightarrow> (error + unit) \<times> 'w"
  io_emit :: "string \<Rightarrow> string \<Rightarrow> payload \<Rightarrow> 'w \<Rightarrow> (error + unit) \<times> 'w"
  getSellerProfile :: "ident \<Rightarrow> 'w \<Rightarrow> (error + seller option) \<times> 'w"
  getCustomerProfile :: "ident \<Rightarrow> 'w \<Rightarrow> (error + customer option) \<times> 'w"

text \<open>
  A handler is a computation on the world; it returns a value or throws, and it leaves
  the trace of what it did. \<open>invoke\<close> calls a collaborator, waits for it where the source
  awaits, and records the call with its outcome; \<open>start\<close> is a call that is not awaited;
  \<open>tryCatch\<close> is \<^verbatim>\<open>try { } catch (error) { }\<close>.
\<close>

type_synonym ('w, 'a) prog = "'w \<Rightarrow> (error + 'a) \<times> 'w \<times> event list"

definition ret :: "'a \<Rightarrow> ('w, 'a) prog" where
  "ret x = (\<lambda>w. (Inr x, w, []))"

definition bnd :: "('w, 'a) prog \<Rightarrow> ('a \<Rightarrow> ('w, 'b) prog) \<Rightarrow> ('w, 'b) prog" where
  "bnd m f = (\<lambda>w. case m w of
       (Inl e, w1, t1) \<Rightarrow> (Inl e, w1, t1)
     | (Inr x, w1, t1) \<Rightarrow> (case f x w1 of (r, w2, t2) \<Rightarrow> (r, w2, t1 @ t2)))"

definition tryCatch :: "('w, 'a) prog \<Rightarrow> (error \<Rightarrow> ('w, 'a) prog) \<Rightarrow> ('w, 'a) prog" where
  "tryCatch m h = (\<lambda>w. case m w of
       (Inl e, w1, t1) \<Rightarrow> (case h e w1 of (r, w2, t2) \<Rightarrow> (r, w2, t1 @ t2))
     | (Inr x, w1, t1) \<Rightarrow> (Inr x, w1, t1))"

definition invoke :: "call \<Rightarrow> ('w \<Rightarrow> (error + 'a) \<times> 'w) \<Rightarrow> ('w, 'a) prog" where
  "invoke c f = (\<lambda>w. case f w of
       (Inl e, w1) \<Rightarrow> (Inl e, w1, [Call c (Threw e)])
     | (Inr x, w1) \<Rightarrow> (Inr x, w1, [Call c Returned]))"

definition start :: "call \<Rightarrow> ('w \<Rightarrow> (error + settlement) \<times> 'w) \<Rightarrow> ('w, unit) prog" where
  "start c f = (\<lambda>w. case f w of
       (Inl e, w1) \<Rightarrow> (Inl e, w1, [Call c (Threw e)])
     | (Inr Settled, w1) \<Rightarrow> (Inr (), w1, [Call c Returned])
     | (Inr Unsettled, w1) \<Rightarrow> (Inr (), w1, [Call c Pending]))"

definition logger :: "event \<Rightarrow> ('w, unit) prog" where
  "logger ev = (\<lambda>w. (Inr (), w, [ev]))"

text \<open>What holds of the result, the world and the trace after a computation.\<close>

definition post :: "('w, 'a) prog \<Rightarrow> 'w \<Rightarrow> ((error + 'a) \<Rightarrow> 'w \<Rightarrow> event list \<Rightarrow> bool) \<Rightarrow> bool" where
  "post m w Q = (case m w of (r, w', t) \<Rightarrow> Q r w' t)"

text \<open>The calls of the handlers, each recorded under its name.\<close>

definition callSellerFindById :: "'w collab \<Rightarrow> ident \<Rightarrow> ('w, seller option) prog" where
  "callSellerFindById c i = invoke (FindById SellerModel i) (Seller_findById c i)"

definition callCustomerFindById :: "'w collab \<Rightarrow> ident \<Rightarrow> ('w, customer option) prog" where
  "callCustomerFindById c i = invoke (FindById CustomerModel i) (Customer_findById c i)"

definition callSellerSave :: "'w collab \<Rightarrow> seller \<Rightarrow> ('w, seller) prog" where
  "callSellerSave c d = invoke (Save SellerModel (s_id d)) (seller_save c d)"

definition callCustomerSave :: "'w collab \<Rightarrow> customer \<Rightarrow> ('w, customer) prog" where
  "callCustomerSave c d = invoke (Save CustomerModel (c_id d)) (customer_save c d)"

definition callAgreementFind :: "'w collab \<Rightarrow> ident \<Rightarrow> ('w, agreement list) prog" where
  "callAgreementFind c i = invoke (Find AgreementModel i) (Agreement_find c i)"

definition callRateCardFind :: "'w collab \<Rightarrow> ident \<Rightarrow> ('w, rateCard list) prog" where
  "callRateCardFind c i = invoke (Find RateCardModel i) (RateCard_find c i)"

definition callInvalidateCachePattern :: "'w collab \<Rightarrow> string \<Rightarrow> ('w, unit) prog" where
  "callInvalidateCachePattern c pat = start (InvalidateCachePattern pat) (invalidateCachePattern c pat)"

definition callGetIO :: "'w collab \<Rightarrow> ('w, unit) prog" where
  "callGetIO c = invoke GetIO (getIO c)"

definition callEmit :: "'w collab \<Rightarrow> string \<Rightarrow> string \<Rightarrow> payload \<Rightarrow> ('w, unit) prog" where
  "callEmit c room name p = invoke (Emit room name p) (io_emit c room name p)"

definition callGetSellerProfile :: "'w collab \<Rightarrow> ident \<Rightarrow> ('w, seller option) prog" where
  "callGetSellerProfile c i = invoke (GetProfile SellerModel i) (getSellerProfile c i)"

definition callGetCustomerProfile :: "'w collab \<Rightarrow> ident \<Rightarrow> ('w, customer option) prog" where
  "callGetCustomerProfile c i = invoke (GetProfile CustomerModel i) (getCustomerProfile c i)"

subsection \<open>\<^verbatim>\<open>updateSellerStatus\<close> and \<^verbatim>\<open>updateCustomerStatus\<close>\<close>

text \<open>
  The inner \<^verbatim>\<open>try\<close> block of \<^verbatim>\<open>updateSellerStatus\<close>: the invalidation of the cache pattern
  of the seller is called and not awaited, the socket server is fetched, and three emits follow in a row: the status change to the dashboard room, and
  the profile, fetched anew for each, to the admin room of the seller and to the
  seller's own room. The argument of an emit is evaluated before the emit.
\<close>

definition sellerBroadcast :: "'w collab \<Rightarrow> status_request \<Rightarrow> seller \<Rightarrow> ('w, unit) prog" where
  "sellerBroadcast c req seller =
     bnd (callInvalidateCachePattern c (''seller:'' @ param_id req @ '':*'')) (\<lambda>_.
     bnd (callGetIO c) (\<lambda>_.
     bnd (callEmit c ''admin-dashboard'' ''seller:profile:updated''
            (SellerStatusChanged (param_id req) (s_status seller) (user_id req) (emitDate req))) (\<lambda>_.
     bnd (callGetSellerProfile c (param_id req)) (\<lambda>p1.
     bnd (callEmit c (''admin-seller-'' @ param_id req) ''seller:profile:updated'' (SellerProfile p1)) (\<lambda>_.
     bnd (callGetSellerProfile c (param_id req)) (\<lambda>p2.
     bnd (callEmit c (''seller-'' @ param_id req) ''seller:profile:updated'' (SellerProfile p2)) (\<lambda>_.
     logger (LogInfo (''Broadcasted seller profile update for '' @ param_id req)))))))))"

text \<open>
  The assignments before the save: the status is set and an entry is pushed on the
  status history, which starts empty when the document has none.
\<close>

definition setSellerStatus :: "status_request \<Rightarrow> seller \<Rightarrow> seller" where
  "setSellerStatus req seller =
     (let entry = \<lparr> h_status = body_status req, h_reason = body_reason req,
                    h_updatedBy = user_id req, h_timestamp = historyDate req \<rparr>;
          history = (case s_statusHistory seller of None \<Rightarrow> [] | Some h \<Rightarrow> h)
      in seller\<lparr>s_status := body_status req, s_statusHistory := Some (history @ [entry])\<rparr>)"

definition setCustomerStatus :: "status_request \<Rightarrow> customer \<Rightarrow> customer" where
  "setCustomerStatus req customer =
     (let entry = \<lparr> h_status = body_status req, h_reason = body_reason req,
                    h_updatedBy = user_id req, h_timestamp = historyDate req \<rparr>;
          history = (case c_statusHistory customer of None \<Rightarrow> [] | Some h \<Rightarrow> h)
      in customer\<lparr>c_status := body_status req, c_statusHistory := Some (history @ [entry])\<rparr>)"

definition updateSellerStatus :: "'w collab \<Rightarrow> status_request \<Rightarrow> ('w, response) prog" where
  "updateSellerStatus c req =
     tryCatch
       (bnd (callSellerFindById c (param_id req)) (\<lambda>found.
          case found of
            None \<Rightarrow> ret (Next ''Seller not found'' 404)
          | Some seller \<Rightarrow>
              (let seller1 = setSellerStatus req seller
               in bnd (callSellerSave c seller1) (\<lambda>saved.
                  bnd (tryCatch (sellerBroadcast c req saved)
                         (\<lambda>error. logger (LogWarn (''Failed to broadcast seller update: '' @ message error)))) (\<lambda>_.
                  bnd (logger (LogInfo (''Admin '' @ user_id req @ '' updated seller '' @ param_id req
                                         @ '' status to '' @ body_status req))) (\<lambda>_.
                  ret (Json 200 (SellerBody saved))))))))
       (\<lambda>error.
          bnd (logger (LogError (''Error in updateSellerStatus: '' @ message error))) (\<lambda>_.
          ret (Next ''Failed to update seller status'' 500)))"

definition customerBroadcast :: "'w collab \<Rightarrow> status_request \<Rightarrow> customer \<Rightarrow> ('w, unit) prog" where
  "customerBroadcast c req customer =
     bnd (callInvalidateCachePattern c (''customer:'' @ param_id req @ '':*'')) (\<lambda>_.
     bnd (callGetIO c) (\<lambda>_.
     bnd (callEmit c ''admin-dashboard'' ''customer:profile:updated''
            (CustomerStatusChanged (param_id req) (c_status customer) (user_id req) (emitDate req))) (\<lambda>_.
     bnd (callGetCustomerProfile c (param_id req)) (\<lambda>p1.
     bnd (callEmit c (''admin-customer-'' @ param_id req) ''customer:profile:updated'' (CustomerProfile p1)) (\<lambda>_.
     bnd (callGetCustomerProfile c (param_id req)) (\<lambda>p2.
     bnd (callEmit c (''customer-'' @ param_id req) ''customer:profile:updated'' (CustomerProfile p2)) (\<lambda>_.
     logger (LogInfo (''Broadcasted customer profile update for '' @ param_id req)))))))))"

definition updateCustomerStatus :: "'w collab \<Rightarrow> status_request \<Rightarrow> ('w, response) prog" where
  "updateCustomerStatus c req =
     tryCatch
       (bnd (callCustomerFindById c (param_id req)) (\<lambda>found.
          case found of
            None \<Rightarrow> ret (Next ''Customer not found'' 404)
          | Some customer \<Rightarrow>
              (let customer1 = setCustomerStatus req customer
               in bnd (callCustomerSave c customer1) (\<lambda>saved.
                  bnd (tryCatch (customerBroadcast c req saved)
                         (\<lambda>error. logger (LogWarn (''Failed to broadcast customer update: '' @ message error)))) (\<lambda>_.
                  bnd (logger (LogInfo (''Admin '' @ user_id req @ '' updated customer '' @ param_id req
                                         @ '' status to '' @ body_status req))) (\<lambda>_.
                  ret (Json 200 (CustomerBody saved))))))))
       (\<lambda>error.
          bnd (logger (LogError (''Error in updateCustomerStatus: '' @ message error))) (\<lambda>_.
          ret (Next ''Failed to update customer status'' 500)))"

subsection \<open>\<^verbatim>\<open>getSellerDetails\<close> and \<^verbatim>\<open>getCustomerDetails\<close>\<close>

text \<open>
  The profile is asked of the realtime service inside a \<^verbatim>\<open>try\<close> of its own; a throw
  leaves \<^verbatim>\<open>null\<close>. \<^verbatim>\<open>sellerProfile || await Seller.findById(id)\<close> queries the collection
  only when the profile is falsy.
\<close>

definition getSellerDetails :: "'w collab \<Rightarrow> ident \<Rightarrow> ('w, response) prog" where
  "getSellerDetails c i =
     tryCatch
       (bnd (tryCatch (callGetSellerProfile c i)
               (\<lambda>error. bnd (logger (LogWarn (''Failed to get seller profile from cache: '' @ message error)))
                             (\<lambda>_. ret None))) (\<lambda>sellerProfile.
        bnd (case sellerProfile of Some p \<Rightarrow> ret (Some p) | None \<Rightarrow> callSellerFindById c i) (\<lambda>found.
          case found of
            None \<Rightarrow> ret (Next ''Seller not found'' 404)
          | Some seller \<Rightarrow>
              (let kyc = \<lparr> kyc_status = s_status seller,
                           kyc_documents = (case s_documents seller of None \<Rightarrow> [] | Some d \<Rightarrow> d),
                           kyc_businessName = s_businessName seller,
                           kyc_gstin = s_gstin seller \<rparr>
               in bnd (callAgreementFind c i) (\<lambda>agreements.
                  bnd (callRateCardFind c i) (\<lambda>rateCards.
                  ret (Json 200 (SellerDetailsBody seller kyc agreements rateCards
                                  (sellerProfile \<noteq> None)))))))))
       (\<lambda>error.
          bnd (logger (LogError (''Error in getSellerDetails: '' @ message error))) (\<lambda>_.
          ret (Next ''Failed to fetch seller details'' 500)))"

definition getCustomerDetails :: "'w collab \<Rightarrow> ident \<Rightarrow> ('w, response) prog" where
  "getCustomerDetails c i =
     tryCatch
       (bnd (tryCatch (callGetCustomerProfile c i)
               (\<lambda>error. bnd (logger (LogWarn (''Failed to get customer profile from cache: '' @ message error)))
                             (\<lambda>_. ret None))) (\<lambda>customerProfile.
        bnd (case customerProfile of Some p \<Rightarrow> ret (Some p) | None \<Rightarrow> callCustomerFindById c i) (\<lambda>found.
          case found of
            None \<Rightarrow> ret (Next ''Customer not found'' 404)
          | Some customer \<Rightarrow>
              (let addresses = (case c_addresses customer of
                                  None \<Rightarrow> []
                                | Some a \<Rightarrow> if length a > 0 then a else [])
               in ret (Json 200 (CustomerDetailsBody customer addresses (customerProfile \<noteq> None)))))))
       (\<lambda>error.
          bnd (logger (LogError (''Error in getCustomerDetails: '' @ message error))) (\<lambda>_.
          ret (Next ''Failed to fetch customer details'' 500)))"

subsection \<open>\<^verbatim>\<open>getRealtimeUserData\<close>\<close>

text \<open>
  The two mapped arrow functions: each asks for one profile and turns a throw into the
  placeholder. The calls are issued in the order of the array, sellers first; the
  model takes each to its end before the next.
\<close>

definition sellerEntry :: "'w collab \<Rightarrow> ident \<Rightarrow> ('w, seller entry) prog" where
  "sellerEntry c i =
     tryCatch (bnd (callGetSellerProfile c i) (\<lambda>p. ret (Fetched p)))
       (\<lambda>error.
          bnd (logger (LogWarn (''Failed to get real-time seller profile for '' @ i @ '': '' @ message error))) (\<lambda>_.
          ret (Placeholder i ''Failed to fetch real-time data'')))"

definition customerEntry :: "'w collab \<Rightarrow> ident \<Rightarrow> ('w, customer entry) prog" where
  "customerEntry c i =
     tryCatch (bnd (callGetCustomerProfile c i) (\<lambda>p. ret (Fetched p)))
       (\<lambda>error.
          bnd (logger (LogWarn (''Failed to get real-time customer profile for '' @ i @ '': '' @ message error))) (\<lambda>_.
          ret (Placeholder i ''Failed to fetch real-time data'')))"

fun mapAll :: "('i \<Rightarrow> ('w, 'a) prog) \<Rightarrow> 'i list \<Rightarrow> ('w, 'a list) prog" where
  "mapAll f [] = ret []"
| "mapAll f (i # is) = bnd (f i) (\<lambda>x. bnd (mapAll f is) (\<lambda>xs. ret (x # xs)))"

text \<open>\<^verbatim>\<open>const { sellerIds = [] } = req.body\<close>: the default stands in for a missing field only.\<close>

fun orEmpty :: "idsField \<Rightarrow> idsField" where
  "orEmpty Missing = Array []"
| "orEmpty f = f"

fun showNat :: "nat \<Rightarrow> string" where
  "showNat n = (if n < 10 then [char_of (48 + n)] else showNat (n div 10) @ [char_of (48 + n mod 10)])"

declare showNat.simps [simp del]

definition MAX_IDS :: nat where
  "MAX_IDS = 20"

definition getRealtimeUserData :: "'w collab \<Rightarrow> realtime_request \<Rightarrow> ('w, response) prog" where
  "getRealtimeUserData c req =
     tryCatch
       (case (orEmpty (body_sellerIds req), orEmpty (body_customerIds req)) of
          (Array sellerIds, Array customerIds) \<Rightarrow>
            if length sellerIds + length customerIds > MAX_IDS
            then ret (Next (''Too many IDs requested. Maximum '' @ showNat MAX_IDS @ '' total IDs allowed'') 400)
            else
              bnd (logger (LogInfo (''Fetching real-time profile data for '' @ showNat (length sellerIds)
                                     @ '' sellers and '' @ showNat (length customerIds) @ '' customers''))) (\<lambda>_.
              bnd (mapAll (sellerEntry c) sellerIds) (\<lambda>sellers.
              bnd (mapAll (customerEntry c) customerIds) (\<lambda>customers.
              ret (Json 200 (RealtimeBody sellers customers (responseDate req))))))
        | _ \<Rightarrow> ret (Next ''Invalid input format. sellerIds and customerIds must be arrays'' 400))
       (\<lambda>error.
          bnd (logger (LogError (''Error in getRealtimeUserData: '' @ message error))) (\<lambda>_.
          ret (Next ''Failed to fetch real-time user data'' 500)))"

subsection \<open>Reading a trace\<close>

definition resultOf :: "(error + 'a) \<times> 'w \<times> event list \<Rightarrow> error + 'a" where
  "resultOf x = fst x"

definition worldOf :: "(error + 'a) \<times> 'w \<times> event list \<Rightarrow> 'w" where
  "worldOf x = fst (snd x)"

definition traceOf :: "(error + 'a) \<times> 'w \<times> event list \<Rightarrow> event list" where
  "traceOf x = snd (snd x)"

text \<open>The rooms an emit was called for, and the rooms an emit returned for.\<close>

fun emittedRooms :: "event list \<Rightarrow> string list" where
  "emittedRooms [] = []"
| "emittedRooms (Call (Emit room _ _) _ # es) = room # emittedRooms es"
| "emittedRooms (_ # es) = emittedRooms es"

fun deliveredRooms :: "event list \<Rightarrow> string list" where
  "deliveredRooms [] = []"
| "deliveredRooms (Call (Emit room _ _) Returned # es) = room # deliveredRooms es"
| "deliveredRooms (_ # es) = deliveredRooms es"

fun isCall :: "event \<Rightarrow> bool" where
  "isCall (Call _ _) = True"
| "isCall _ = False"

fun threw :: "event \<Rightarrow> bool" where
  "threw (Call _ (Threw _)) = True"
| "threw _ = False"

fun isFetch :: "event \<Rightarrow> bool" where
  "isFetch (Call (GetProfile _ _) _) = True"
| "isFetch _ = False"

text \<open>The calls made after the first call that threw.\<close>

fun afterThrow :: "event list \<Rightarrow> event list" where
  "afterThrow [] = []"
| "afterThrow (e # es) = (if threw e then filter isCall es else afterThrow es)"

text \<open>The messages of the errors thrown, and the warnings and errors logged.\<close>

fun thrownMessages :: "event list \<Rightarrow> string list" where
  "thrownMessages [] = []"
| "thrownMessages (Call _ (Threw e) # es) = message e # thrownMessages es"
| "thrownMessages (_ # es) = thrownMessages es"

fun warnings :: "event list \<Rightarrow> string list" where
  "warnings [] = []"
| "warnings (LogWarn m # es) = m # warnings es"
| "warnings (_ # es) = warnings es"

fun loggedErrors :: "event list \<Rightarrow> string list" where
  "loggedErrors [] = []"
| "loggedErrors (LogError m # es) = m # loggedErrors es"
| "loggedErrors (_ # es) = loggedErrors es"

text \<open>
  No profile is asked for before the invalidation of the pattern has returned with its
  work done: the trace is read from its start up to that return. A call that left a
  promise pending does not count.
\<close>

fun fetchesGuarded :: "string \<Rightarrow> event list \<Rightarrow> bool" where
  "fetchesGuarded pat [] = True"
| "fetchesGuarded pat (e # es) =
     (if e = Call (InvalidateCachePattern pat) Returned then True
      else \<not> isFetch e \<and> fetchesGuarded pat es)"

text \<open>The status in each profile that was emitted (\<open>None\<close> for a \<^verbatim>\<open>null\<close> profile).\<close>

fun emittedStatuses :: "event list \<Rightarrow> string option list" where
  "emittedStatuses [] = []"
| "emittedStatuses (Call (Emit _ _ (SellerProfile p)) _ # es) = map_option s_status p # emittedStatuses es"
| "emittedStatuses (Call (Emit _ _ (CustomerProfile p)) _ # es) = map_option c_status p # emittedStatuses es"
| "emittedStatuses (_ # es) = emittedStatuses es"

text \<open>The profile calls of a trace in order: the model, the identifier, and whether it threw.\<close>

fun fetches :: "event list \<Rightarrow> (model \<times> ident \<times> bool) list" where
  "fetches [] = []"
| "fetches (Call (GetProfile m i) out # es) = (m, i, out \<noteq> Returned) # fetches es"
| "fetches (_ # es) = fetches es"

fun isPlaceholder :: "'p entry \<Rightarrow> bool" where
  "isPlaceholder (Placeholder _ _) = True"
| "isPlaceholder (Fetched _) = False"

text \<open>An entry of the listing for an identifier: the placeholder for it, or a profile.\<close>

fun entryFor :: "ident \<Rightarrow> 'p entry \<Rightarrow> bool" where
  "entryFor i (Placeholder j m) = (j = i \<and> m = ''Failed to fetch real-time data'')"
| "entryFor i (Fetched _) = True"

text \<open>
  The targets of an entity update in the words of the specification: the dashboard
  channel, the admin channel of the entity and the entity's own channel.
\<close>

definition targetsFor :: "string \<Rightarrow> ident \<Rightarrow> string list" where
  "targetsFor entityType i =
     [''admin-dashboard'', ''admin-'' @ entityType @ ''-'' @ i, entityType @ ''-'' @ i]"

section \<open>The default filter of the seller model\<close>

text \<open>
  A value of JavaScript as far as its truthiness goes, for the option
  \<^verbatim>\<open>skipDefaultFilter\<close> of a query.
\<close>

datatype jsprim = Undefined | Null | Boolean bool | Number int | String string

fun truthy :: "jsprim \<Rightarrow> bool" where
  "truthy Undefined = False"
| "truthy Null = False"
| "truthy (Boolean b) = b"
| "truthy (Number n) = (n \<noteq> 0)"
| "truthy (String s) = (s \<noteq> [])"

text \<open>
  \<^verbatim>\<open>this._conditions.status\<close>: not there, \<^verbatim>\<open>null\<close>, a string to be equal to, the object
  \<^verbatim>\<open>{ $ne: s }\<close>, or an object of other operators, which is a test of the status. An
  object is truthy; a string is truthy unless empty.
\<close>

datatype statusCondition = Unset | IsNull | Exactly string | NotEqual string | Operator "string \<Rightarrow> bool"

fun conditionTruthy :: "statusCondition \<Rightarrow> bool" where
  "conditionTruthy Unset = False"
| "conditionTruthy IsNull = False"
| "conditionTruthy (Exactly s) = (s \<noteq> [])"
| "conditionTruthy (NotEqual s) = True"
| "conditionTruthy (Operator P) = True"

fun statusMatches :: "statusCondition \<Rightarrow> string \<Rightarrow> bool" where
  "statusMatches Unset st = True"
| "statusMatches IsNull st = False"
| "statusMatches (Exactly s) st = (st = s)"
| "statusMatches (NotEqual s) st = (st \<noteq> s)"
| "statusMatches (Operator P) st = P st"

text \<open>
  A query on the seller model: the name of its operation (\<^verbatim>\<open>find\<close>, \<^verbatim>\<open>findOne\<close>,
  \<^verbatim>\<open>countDocuments\<close>, and so on), the condition on the status, the other conditions as a test of
  the document, and the option.
\<close>

record query =
  q_op :: string
  q_status :: statusCondition
  q_others :: "seller \<Rightarrow> bool"
  q_skipDefaultFilter :: jsprim

text \<open>
  The hook \<^verbatim>\<open>sellerSchema.pre(/^find/, ...)\<close>: \<^verbatim>\<open>this.find({ status: { $ne: 'suspended' } })\<close>
  merges the condition into the query, where it takes the place of a falsy one.
\<close>

definition preFind :: "query \<Rightarrow> query" where
  "preFind q =
     (if \<not> truthy (q_skipDefaultFilter q) \<and> \<not> conditionTruthy (q_status q)
      then q\<lparr>q_status := NotEqual ''suspended''\<rparr>
      else q)"

text \<open>The regular expression \<^verbatim>\<open>/^find/\<close> on the name of the operation.\<close>

definition findFamily :: "string \<Rightarrow> bool" where
  "findFamily name = prefix ''find'' name"

text \<open>
  The query as the store answers it: the hook runs for the operations it is registered
  for, and the documents that meet all conditions are the result.
\<close>

definition execQuery :: "query \<Rightarrow> seller list \<Rightarrow> seller list" where
  "execQuery q docs =
     (let q' = (if findFamily (q_op q) then preFind q else q)
      in filter (\<lambda>d. statusMatches (q_status q') (s_status d) \<and> q_others q' d) docs)"

section \<open>A world of collections, cache and sockets\<close>

text \<open>
  The state of the document store, of the cache store and of the clock. Of the cache
  store the world keeps the entries, the deletes that were requested and are not yet
  carried out, and a log of what was asked of the store and what it acknowledged, in
  the order in which it happened.
\<close>

datatype cacheEvent =
    DeleteRequested string
  | DeleteAcknowledged string
  | DeleteFailed string
  | ReadRequested string

record store =
  sellerCollection :: "seller list"
  customerCollection :: "customer list"
  agreementCollection :: "(ident \<times> agreement) list"
  rateCardCollection :: "(ident \<times> rateCard) list"
  cacheEntries :: "string \<Rightarrow> (payload \<times> nat) option"
  pendingDeletes :: "string list"
  cacheLog :: "cacheEvent list"
  clock :: nat

text \<open>
  What can go wrong outside the handlers: a failing collection, a failing delete of the
  cache store, a failing profile loader, a socket server that is not there, a room the
  registry cannot deliver to. \<open>readOvertakes\<close> says that the cache store serves a read
  before a delete that was requested earlier and is still under way.
\<close>

record faults =
  dbFault :: "model \<Rightarrow> error option"
  deleteFault :: bool
  readOvertakes :: bool
  loaderFault :: bool
  ioFault :: "error option"
  emitFault :: "string \<Rightarrow> error option"

text \<open>\<^verbatim>\<open>Seller.findById\<close> is \<^verbatim>\<open>findOne\<close> on the identifier, so the default filter applies.\<close>

definition storeSellerFindById :: "faults \<Rightarrow> ident \<Rightarrow> store \<Rightarrow> (error + seller option) \<times> store" where
  "storeSellerFindById f i w =
     (case dbFault f SellerModel of
        Some e \<Rightarrow> (Inl e, w)
      | None \<Rightarrow>
          (case execQuery \<lparr> q_op = ''findOne'', q_status = Unset, q_others = (\<lambda>d. s_id d = i),
                            q_skipDefaultFilter = Undefined \<rparr> (sellerCollection w) of
             [] \<Rightarrow> (Inr None, w)
           | d # _ \<Rightarrow> (Inr (Some d), w)))"

definition storeCustomerFindById :: "faults \<Rightarrow> ident \<Rightarrow> store \<Rightarrow> (error + customer option) \<times> store" where
  "storeCustomerFindById f i w =
     (case dbFault f CustomerModel of
        Some e \<Rightarrow> (Inl e, w)
      | None \<Rightarrow> (Inr (find (\<lambda>d. c_id d = i) (customerCollection w)), w))"

text \<open>
  A save validates the status against the \<^verbatim>\<open>enum\<close> of the seller schema and writes the
  document in the place of the one with its identifier.
\<close>

definition sellerStatusEnum :: "string list" where
  "sellerStatusEnum = [''pending'', ''active'', ''suspended'']"

definition storeSellerSave :: "faults \<Rightarrow> seller \<Rightarrow> store \<Rightarrow> (error + seller) \<times> store" where
  "storeSellerSave f d w =
     (case dbFault f SellerModel of
        Some e \<Rightarrow> (Inl e, w)
      | None \<Rightarrow>
          if s_status d \<notin> set sellerStatusEnum then (Inl (Error ''Seller validation failed''), w)
          else (Inr d, w\<lparr>sellerCollection :=
                  (if list_ex (\<lambda>x. s_id x = s_id d) (sellerCollection w)
                   then map (\<lambda>x. if s_id x = s_id d then d else x) (sellerCollection w)
                   else sellerCollection w @ [d])\<rparr>))"

definition storeCustomerSave :: "faults \<Rightarrow> customer \<Rightarrow> store \<Rightarrow> (error + customer) \<times> store" where
  "storeCustomerSave f d w =
     (case dbFault f CustomerModel of
        Some e \<Rightarrow> (Inl e, w)
      | None \<Rightarrow>
          (Inr d, w\<lparr>customerCollection :=
                  (if list_ex (\<lambda>x. c_id x = c_id d) (customerCollection w)
                   then map (\<lambda>x. if c_id x = c_id d then d else x) (customerCollection w)
                   else customerCollection w @ [d])\<rparr>))"

definition storeAgreementFind :: "faults \<Rightarrow> ident \<Rightarrow> store \<Rightarrow> (error + agreement list) \<times> store" where
  "storeAgreementFind f i w =
     (case dbFault f AgreementModel of
        Some e \<Rightarrow> (Inl e, w)
      | None \<Rightarrow> (Inr (map snd (filter (\<lambda>a. fst a = i) (agreementCollection w))), w))"

definition storeRateCardFind :: "faults \<Rightarrow> ident \<Rightarrow> store \<Rightarrow> (error + rateCard list) \<times> store" where
  "storeRateCardFind f i w =
     (case dbFault f RateCardModel of
        Some e \<Rightarrow> (Inl e, w)
      | None \<Rightarrow> (Inr (map snd (filter (\<lambda>a. fst a = i) (rateCardCollection w))), w))"

definition storeGetIO :: "faults \<Rightarrow> store \<Rightarrow> (error + unit) \<times> store" where
  "storeGetIO f w = (case ioFault f of Some e \<Rightarrow> (Inl e, w) | None \<Rightarrow> (Inr (), w))"

definition storeEmit :: "faults \<Rightarrow> string \<Rightarrow> string \<Rightarrow> payload \<Rightarrow> store \<Rightarrow> (error + unit) \<times> store" where
  "storeEmit f room name p w = (case emitFault f room of Some e \<Rightarrow> (Inl e, w) | None \<Rightarrow> (Inr (), w))"

text \<open>
  Modelled from the spec: the matching of the cache store is not among the sources. An
  invalidation pattern is a wildcard expression such as \<^verbatim>\<open>seller:<id>:*\<close>, in which \<^verbatim>\<open>*\<close>
  stands for any run of characters.
\<close>

fun glob :: "string \<Rightarrow> string \<Rightarrow> bool" where
  "glob [] s = (s = [])"
| "glob (p # ps) s =
     (if p = CHR ''*''
      then glob ps s \<or> (case s of [] \<Rightarrow> False | _ # s' \<Rightarrow> glob (p # ps) s')
      else (case s of [] \<Rightarrow> False | x # s' \<Rightarrow> p = x \<and> glob ps s'))"

text \<open>
  Modelled from the spec: \<^verbatim>\<open>invalidateCachePattern\<close> of \<^verbatim>\<open>utils/cache.js\<close> is not among the
  sources. Section 4.1, \<^verbatim>\<open>invalidate\<close>: it deletes every cache key that matches the
  pattern, and a failure of the delete is logged and swallowed. Section 5 has every
  cache write suspend pending I/O: the call sends the request to the cache store and
  hands back a promise; the store carries the delete out and acknowledges it in a later
  turn. A caller that awaits the promise goes on only after the acknowledgement, which
  is what Section 4.1 asks for (synchronous with respect to the caller).
\<close>

definition specInvalidateCachePattern :: "faults \<Rightarrow> string \<Rightarrow> store \<Rightarrow> (error + settlement) \<times> store" where
  "specInvalidateCachePattern f pat w =
     (Inr Unsettled,
      w\<lparr>pendingDeletes := pendingDeletes w @ [pat],
        cacheLog := cacheLog w @ [DeleteRequested pat]\<rparr>)"

text \<open>
  Modelled from the spec: the cache store carries out the deletes that are under way.
  Each removes the keys that match its pattern and is acknowledged, or fails, and the
  failure is swallowed (Sections 4.1 and 7).
\<close>

definition settle :: "faults \<Rightarrow> store \<Rightarrow> store" where
  "settle f w =
     w\<lparr>cacheEntries :=
         (if deleteFault f then cacheEntries w
          else (\<lambda>k. if list_ex (\<lambda>pat. glob pat k) (pendingDeletes w) then None
                    else cacheEntries w k)),
       pendingDeletes := [],
       cacheLog := cacheLog w @
         map (if deleteFault f then DeleteFailed else DeleteAcknowledged) (pendingDeletes w)\<rparr>"

text \<open>
  \<^verbatim>\<open>getSellerProfile\<close> and \<^verbatim>\<open>getCustomerProfile\<close> of the realtime services are not among
  the sources either. Section 4.1 of the spec, \<^verbatim>\<open>getProfile\<close>: the cache is read at the
  key \<^verbatim>\<open><entityType>:<id>:profile\<close>; a hit that has not expired is returned with
  \<^verbatim>\<open>fromCache=true\<close>; on a miss the loader fetches the canonical data, which is written
  to the cache with a time to live of 60 seconds and returned with \<^verbatim>\<open>fromCache=false\<close>;
  when the loader fails the call fails with \<^verbatim>\<open>ProfileUnavailable\<close>. The read of the cache
  suspends pending I/O (Section 5): it is requested in the turn of the call, and while
  the caller waits the cache store carries out the deletes that are under way, before
  or after it serves the read.
\<close>

text \<open>Modelled from the spec: the fixed time to live of a cached profile, 60 seconds.\<close>

definition PROFILE_TTL :: nat where
  "PROFILE_TTL = 60"

text \<open>
  Modelled from the spec: the read of the cache at a key, as \<^verbatim>\<open>getProfile\<close> asks for it.
  The world after it and the entry that was served.
\<close>

definition readCache :: "faults \<Rightarrow> string \<Rightarrow> store \<Rightarrow> (payload \<times> nat) option \<times> store" where
  "readCache f key w =
     (let w1 = w\<lparr>cacheLog := cacheLog w @ [ReadRequested key]\<rparr>;
          w2 = settle f w1
      in (if readOvertakes f then cacheEntries w1 key else cacheEntries w2 key, w2))"

text \<open>
  Modelled from the spec: the miss of \<^verbatim>\<open>getProfile\<close> for a seller. The loader reads the
  canonical document; its failure is \<^verbatim>\<open>ProfileUnavailable\<close>.
\<close>

definition loadSellerProfile :: "faults \<Rightarrow> ident \<Rightarrow> store \<Rightarrow> (error + seller option) \<times> store" where
  "loadSellerProfile f i w =
     (if loaderFault f then (Inl (Error ''ProfileUnavailable''), w)
      else (let p = find (\<lambda>d. s_id d = i) (sellerCollection w)
            in (Inr (map_option (\<lambda>d. d\<lparr>s_fromCache := Some False\<rparr>) p),
                w\<lparr>cacheEntries := (cacheEntries w)((''seller:'' @ i @ '':profile'') \<mapsto>
                     (SellerProfile p, clock w + PROFILE_TTL))\<rparr>)))"

text \<open>
  Modelled from the spec: \<^verbatim>\<open>getProfile\<close> for a seller, the read of the cache at the key
  of the seller first.
\<close>

definition specGetSellerProfile :: "faults \<Rightarrow> ident \<Rightarrow> store \<Rightarrow> (error + seller option) \<times> store" where
  "specGetSellerProfile f i w =
     (case readCache f (''seller:'' @ i @ '':profile'') w of
        (Some (SellerProfile p, expiresAt), w2) \<Rightarrow>
          if clock w2 < expiresAt then (Inr (map_option (\<lambda>d. d\<lparr>s_fromCache := Some True\<rparr>) p), w2)
          else loadSellerProfile f i w2
      | (_, w2) \<Rightarrow> loadSellerProfile f i w2)"

text \<open>Modelled from the spec: the miss of \<^verbatim>\<open>getProfile\<close> for a customer.\<close>

definition loadCustomerProfile :: "faults \<Rightarrow> ident \<Rightarrow> store \<Rightarrow> (error + customer option) \<times> store" where
  "loadCustomerProfile f i w =
     (if loaderFault f then (Inl (Error ''ProfileUnavailable''), w)
      else (let p = find (\<lambda>d. c_id d = i) (customerCollection w)
            in (Inr (map_option (\<lambda>d. d\<lparr>c_fromCache := Some False\<rparr>) p),
                w\<lparr>cacheEntries := (cacheEntries w)((''customer:'' @ i @ '':profile'') \<mapsto>
                     (CustomerProfile p, clock w + PROFILE_TTL))\<rparr>)))"

text \<open>Modelled from the spec: \<^verbatim>\<open>getProfile\<close> for a customer.\<close>

definition specGetCustomerProfile :: "faults \<Rightarrow> ident \<Rightarrow> store \<Rightarrow> (error + customer option) \<times> store" where
  "specGetCustomerProfile f i w =
     (case readCache f (''customer:'' @ i @ '':profile'') w of
        (Some (CustomerProfile p, expiresAt), w2) \<Rightarrow>
          if clock w2 < expiresAt then (Inr (map_option (\<lambda>d. d\<lparr>c_fromCache := Some True\<rparr>) p), w2)
          else loadCustomerProfile f i w2
      | (_, w2) \<Rightarrow> loadCustomerProfile f i w2)"

text \<open>The collaborators of the handlers over this world.\<close>

definition storeCollab :: "faults \<Rightarrow> store collab" where
  "storeCollab f =
     \<lparr> Seller_findById = storeSellerFindById f,
       Customer_findById = storeCustomerFindById f,
       seller_save = storeSellerSave f,
       customer_save = storeCustomerSave f,
       Agreement_find = storeAgreementFind f,
       RateCard_find = storeRateCardFind f,
       invalidateCachePattern = specInvalidateCachePattern f,
       getIO = storeGetIO f,
       io_emit = storeEmit f,
       getSellerProfile = specGetSellerProfile f,
       getCustomerProfile = specGetCustomerProfile f \<rparr>"

definition noFaults :: faults where
  "noFaults = \<lparr> dbFault = (\<lambda>_. None), deleteFault = False, readOvertakes = False,
                loaderFault = False, ioFault = None, emitFault = (\<lambda>_. None) \<rparr>"

subsection \<open>A seller, a customer and a request\<close>

definition sellerS1 :: seller where
  "sellerS1 = \<lparr> s_id = ''s1'', s_status = ''pending'', s_statusHistory = None, s_documents = None,
                s_businessName = ''Acme'', s_gstin = None, s_fromCache = None \<rparr>"

definition customerC1 :: customer where
  "customerC1 = \<lparr> c_id = ''c1'', c_status = ''inactive'', c_statusHistory = None,
                  c_addresses = None, c_fromCache = None \<rparr>"

text \<open>A world whose cache still holds the profiles of both.\<close>

definition world0 :: store where
  "world0 = \<lparr> sellerCollection = [sellerS1], customerCollection = [customerC1],
               agreementCollection = [], rateCardCollection = [],
               cacheEntries = [''seller:s1:profile'' \<mapsto> (SellerProfile (Some sellerS1), 50),
                               ''customer:c1:profile'' \<mapsto> (CustomerProfile (Some customerC1), 50)],
               pendingDeletes = [], cacheLog = [], clock = 10 \<rparr>"

definition activateS1 :: status_request where
  "activateS1 = \<lparr> param_id = ''s1'', body_status = ''active'', body_reason = None,
                  user_id = ''admin1'', historyDate = 10, emitDate = 10 \<rparr>"

definition activateC1 :: status_request where
  "activateC1 = \<lparr> param_id = ''c1'', body_status = ''active'', body_reason = None,
                  user_id = ''admin1'', historyDate = 10, emitDate = 10 \<rparr>"

text \<open>The same world with an empty cache, and a listing of two suspended sellers.\<close>

definition coldWorld :: store where
  "coldWorld = world0\<lparr>cacheEntries := (\<lambda>_. None)\<rparr>"

definition plainFind :: query where
  "plainFind = \<lparr> q_op = ''find'', q_status = Unset, q_others = (\<lambda>_. True),
                 q_skipDefaultFilter = Undefined \<rparr>"

text \<open>
  Faults: no socket server, a failing loader, a failing room, a failing cache delete,
  and a cache store that serves the read before the delete requested ahead of it.
\<close>

definition lateDelete :: faults where
  "lateDelete = noFaults\<lparr>readOvertakes := True\<rparr>"


definition socketDown :: faults where
  "socketDown = noFaults\<lparr>ioFault := Some (Error ''Socket.IO not initialized'')\<rparr>"

definition loaderDown :: faults where
  "loaderDown = noFaults\<lparr>loaderFault := True\<rparr>"

definition adminRoomDown :: faults where
  "adminRoomDown = noFaults\<lparr>emitFault :=
     (\<lambda>room. if room = ''admin-seller-s1'' then Some (Error ''delivery failed'') else None)\<rparr>"

definition deleteDown :: faults where
  "deleteDown = noFaults\<lparr>deleteFault := True\<rparr>"

section \<open>Properties of the scheduler\<close>

lemma default_initial_interval:
  "initialInterval (DASHBOARD_UPDATE_CONFIG None th) = Some 30000"
  by (simp add: DASHBOARD_UPDATE_CONFIG_def parseIntEnv_def times_def)

lemma adjust_interval:
  "dashboardUpdateInterval (adjustUpdateInterval cfg s) = initialInterval cfg"
  by (simp add: adjustUpdateInterval_def Let_def setInterval_def clearInterval_def
      split: option.splits prod.splits)

lemma fire_interval:
  "dashboardUpdateInterval s = initialInterval cfg \<Longrightarrow>
     dashboardUpdateInterval (fire cfg h s) = initialInterval cfg"
  by (simp add: fire_def reschedule_def Let_def adjust_interval
      split: option.splits callback.splits)

lemma step_interval:
  "dashboardUpdateInterval s = initialInterval cfg \<Longrightarrow>
     dashboardUpdateInterval (step cfg s i) = initialInterval cfg"
  by (cases i)
     (simp_all add: step_def fire_interval gracefulShutdown_def Let_def setTimeout_def
        clearInterval_def split: option.splits)

lemma run_interval: "dashboardUpdateInterval (run cfg is) = initialInterval cfg"
  unfolding run_def
proof (induction "is" rule: rev_induct)
  case Nil
  show ?case by (simp add: boot_def setInterval_def)
next
  case (snoc i "is")
  then show ?case by (simp add: step_interval)
qed

lemma run_append: "run cfg (xs @ ys) = foldl (step cfg) (run cfg xs) ys"
  by (simp add: run_def)

lemma tracked_boot: "tracked (boot cfg)"
  by (simp add: tracked_def boot_def setInterval_def broadcastTimers_def)

lemma tracked_adjust: "tracked s \<Longrightarrow> tracked (adjustUpdateInterval cfg s)"
  by (fastforce simp: tracked_def adjustUpdateInterval_def Let_def setInterval_def
        clearInterval_def broadcastTimers_def list_all_iff split: option.splits)

lemma tracked_shutdown: "tracked s \<Longrightarrow> tracked (gracefulShutdown s)"
  by (auto simp: tracked_def gracefulShutdown_def Let_def setTimeout_def
        clearInterval_def broadcastTimers_def list_all_iff split: option.splits)

lemma tracked_reschedule: "tracked s \<Longrightarrow> tracked (reschedule t s)"
  by (auto simp: tracked_def reschedule_def broadcastTimers_def list_all_iff
      split: option.splits)

lemma tracked_fire: "tracked s \<Longrightarrow> tracked (fire cfg h s)"
proof -
  assume t: "tracked s"
  have a: "\<And>v. tracked (s\<lparr>now := v\<rparr>)"
    using t by (simp add: tracked_def broadcastTimers_def split: option.splits)
  have b: "\<And>v n. tracked (s\<lparr>now := v, broadcasts := n\<rparr>)"
    using t by (simp add: tracked_def broadcastTimers_def split: option.splits)
  have c: "\<And>v. tracked (s\<lparr>now := v, exited := True\<rparr>)"
    using t by (simp add: tracked_def broadcastTimers_def split: option.splits)
  show ?thesis
    using t a b c
    by (simp add: fire_def Let_def tracked_reschedule tracked_adjust
        split: option.splits callback.splits)
qed

lemma tracked_step: "tracked s \<Longrightarrow> tracked (step cfg s i)"
proof -
  assume t: "tracked s"
  have a: "\<And>v. tracked (s\<lparr>now := v\<rparr>)"
    using t by (simp add: tracked_def broadcastTimers_def split: option.splits)
  have b: "\<And>v. tracked (s\<lparr>now := v, exited := True\<rparr>)"
    using t by (simp add: tracked_def broadcastTimers_def split: option.splits)
  have c: "\<And>n. tracked (s\<lparr>connectedAdmins := n\<rparr>)"
    using t by (simp add: tracked_def broadcastTimers_def split: option.splits)
  show ?thesis
    using t a b c
    by (cases i) (simp_all add: step_def tracked_fire tracked_shutdown)
qed

lemma tracked_run: "tracked (run cfg is)"
  unfolding run_def
  by (induction "is" rule: rev_induct) (simp_all add: tracked_boot tracked_step)

lemma shutdown_clears: "tracked s \<Longrightarrow> broadcastTimers (gracefulShutdown s) = []"
  by (fastforce simp: tracked_def gracefulShutdown_def Let_def setTimeout_def
        clearInterval_def broadcastTimers_def list_all_iff filter_empty_conv
      split: option.splits)

text \<open>
  What the shutdown does cancel: in every state the module reaches,
  \<^verbatim>\<open>gracefulShutdown\<close> leaves no broadcast timer armed.
\<close>

lemma shutdown_clears_broadcast_timer:
  "broadcastTimers (gracefulShutdown (run cfg is)) = []"
  using tracked_run by (rule shutdown_clears)

text \<open>
  The broadcast timer of the start fires every \<open>d\<close> milliseconds, as long as the
  five-minute timer is not due before it.
\<close>

lemma run_ticks:
  assumes d: "initialInterval cfg = Some d" "1 \<le> d" "d \<le> 2147483647"
  shows "int n * d \<le> 300000 \<Longrightarrow>
     run cfg (ticks n) =
       \<lparr> dashboardUpdateInterval = Some d, updateIntervalId = Some 0,
         timers = [Timer 0 BroadcastTick (Some d) True (int (Suc n) * d),
                   Timer 1 Readjust (Some 300000) True 300000],
         nextTimer = 2, connectedAdmins = 0, broadcasts = n, closing = False, exited = False,
         now = int n * d \<rparr>"
proof (induction n)
  case 0
  show ?case
    using d by (simp add: ticks_def run_def boot_def setInterval_def effectiveDelay_def)
next
  case (Suc n)
  have le: "int n * d \<le> 300000" and le1: "int (Suc n) * d \<le> 300000"
    using Suc.prems d(2) by (simp_all add: algebra_simps)
  have "ticks (Suc n) = ticks n @ [TimerFires 0]"
    by (simp add: ticks_def replicate_append_same)
  then have "run cfg (ticks (Suc n)) = step cfg (run cfg (ticks n)) (TimerFires 0)"
    by (simp add: run_append)
  also have "\<dots> = \<lparr> dashboardUpdateInterval = Some d, updateIntervalId = Some 0,
         timers = [Timer 0 BroadcastTick (Some d) True (int (Suc (Suc n)) * d),
                   Timer 1 Readjust (Some 300000) True 300000],
         nextTimer = 2, connectedAdmins = 0, broadcasts = Suc n, closing = False, exited = False,
         now = int (Suc n) * d \<rparr>"
    using le1 d
    by (simp add: Suc.IH[OF le] step_def fire_def dueFirst_def reschedule_def Let_def
          effectiveDelay_def algebra_simps)
  finally show ?case .
qed

text \<open>
  C2, as the claim states it, fails. With the configuration of the claim (the interval
  variable unset, threshold 20) and 25 administrators connected, the load is above the
  threshold and the specification asks for 45000. After nine ticks the five-minute
  timer (handle 1) fires, at 300000 ms: \<^verbatim>\<open>adjustUpdateInterval\<close> arms a new broadcast timer
  (handle 2) and leaves the interval at 30000.
\<close>

theorem reconfigure_high_load_counterexample:
  "connectedAdmins (run (DASHBOARD_UPDATE_CONFIG None None) (ticks 9 @ [AdminsConnected 25])) = 25
   \<and> loadFactorThreshold (DASHBOARD_UPDATE_CONFIG None None) = Some 20
   \<and> specReconfigure (DASHBOARD_UPDATE_CONFIG None None) 25 30000 = 45000
   \<and> readjustTimers (run (DASHBOARD_UPDATE_CONFIG None None) (ticks 9 @ [AdminsConnected 25]))
       = [Timer 1 Readjust (Some 300000) True 300000]
   \<and> now (run (DASHBOARD_UPDATE_CONFIG None None) (ticks 9 @ [AdminsConnected 25, TimerFires 1]))
       = 300000
   \<and> updateIntervalId
        (run (DASHBOARD_UPDATE_CONFIG None None) (ticks 9 @ [AdminsConnected 25, TimerFires 1]))
       = Some 2
   \<and> dashboardUpdateInterval
        (run (DASHBOARD_UPDATE_CONFIG None None) (ticks 9 @ [AdminsConnected 25, TimerFires 1]))
       = Some 30000"
proof -
  have t: "run (DASHBOARD_UPDATE_CONFIG None None) (ticks 9) =
       \<lparr> dashboardUpdateInterval = Some 30000, updateIntervalId = Some 0,
         timers = [Timer 0 BroadcastTick (Some 30000) True 300000,
                   Timer 1 Readjust (Some 300000) True 300000],
         nextTimer = 2, connectedAdmins = 0, broadcasts = 9, closing = False, exited = False,
         now = 270000 \<rparr>"
    using run_ticks[of "DASHBOARD_UPDATE_CONFIG None None" 30000 9]
    by (simp add: default_initial_interval)
  have c: "loadFactorThreshold (DASHBOARD_UPDATE_CONFIG None None) = Some 20"
    "specReconfigure (DASHBOARD_UPDATE_CONFIG None None) 25 30000 = 45000"
    by (simp_all add: specReconfigure_def DASHBOARD_UPDATE_CONFIG_def parseIntEnv_def times_def)
  show ?thesis
    by (simp add: run_append t c default_initial_interval step_def fire_def dueFirst_def
          reschedule_def adjustUpdateInterval_def setInterval_def clearInterval_def
          effectiveDelay_def readjustTimers_def Let_def)
qed

text \<open>
  C2, amended: with the interval variable unset the initial interval is 30000, and
  \<^verbatim>\<open>adjustUpdateInterval\<close> sets the current interval to it whatever the load, the
  threshold and the interval before; a second call gives 30000 again. The interval is
  never scaled.
\<close>

theorem reconfigure_resets_to_initial:
  "dashboardUpdateInterval
     (adjustUpdateInterval (DASHBOARD_UPDATE_CONFIG None th)
        (s\<lparr>connectedAdmins := load, dashboardUpdateInterval := current\<rparr>)) = Some 30000
   \<and> dashboardUpdateInterval
       (adjustUpdateInterval (DASHBOARD_UPDATE_CONFIG None th)
          (adjustUpdateInterval (DASHBOARD_UPDATE_CONFIG None th) (s\<lparr>connectedAdmins := load\<rparr>)))
       = Some 30000
   \<and> dashboardUpdateInterval (adjustUpdateInterval cfg s) = initialInterval cfg"
  by (simp add: adjust_interval default_initial_interval)

lemma interval_5: "initialInterval (DASHBOARD_UPDATE_CONFIG (Some ''5'') None) = Some 5000"
  by (simp add: DASHBOARD_UPDATE_CONFIG_def parseIntEnv_def parseInt_def isStrWhiteSpace_def
        digitOf_def times_def Let_def)

text \<open>
  C7, as the claim states it, fails when the initial interval comes from the
  environment: with \<^verbatim>\<open>DASHBOARD_UPDATE_INTERVAL=5\<close> the interval at initialization is 5000,
  below the minimum of 10000, and it stays there on every tick and after the
  readjustment at 300000 ms.
\<close>

theorem interval_bounds_counterexample:
  "dashboardUpdateInterval (boot (DASHBOARD_UPDATE_CONFIG (Some ''5'') None)) = Some 5000
   \<and> minInterval (DASHBOARD_UPDATE_CONFIG (Some ''5'') None) = 10000
   \<and> \<not> withinBounds (DASHBOARD_UPDATE_CONFIG (Some ''5'') None)
          (boot (DASHBOARD_UPDATE_CONFIG (Some ''5'') None))
   \<and> now (run (DASHBOARD_UPDATE_CONFIG (Some ''5'') None) (ticks 59 @ [TimerFires 1])) = 300000
   \<and> updateIntervalId (run (DASHBOARD_UPDATE_CONFIG (Some ''5'') None) (ticks 59 @ [TimerFires 1]))
       = Some 2
   \<and> \<not> withinBounds (DASHBOARD_UPDATE_CONFIG (Some ''5'') None)
          (run (DASHBOARD_UPDATE_CONFIG (Some ''5'') None) (ticks 59 @ [TimerFires 1]))"
proof -
  have t: "run (DASHBOARD_UPDATE_CONFIG (Some ''5'') None) (ticks 59) =
       \<lparr> dashboardUpdateInterval = Some 5000, updateIntervalId = Some 0,
         timers = [Timer 0 BroadcastTick (Some 5000) True 300000,
                   Timer 1 Readjust (Some 300000) True 300000],
         nextTimer = 2, connectedAdmins = 0, broadcasts = 59, closing = False, exited = False,
         now = 295000 \<rparr>"
    using run_ticks[of "DASHBOARD_UPDATE_CONFIG (Some ''5'') None" 5000 59]
    by (simp add: interval_5)
  have m: "minInterval (DASHBOARD_UPDATE_CONFIG (Some ''5'') None) = 10000"
    by (simp add: DASHBOARD_UPDATE_CONFIG_def)
  show ?thesis
    by (simp add: run_append t m interval_5 step_def fire_def dueFirst_def reschedule_def
          adjustUpdateInterval_def setInterval_def clearInterval_def effectiveDelay_def
          withinBounds_def boot_def Let_def)
qed

text \<open>
  C7, amended: in every state the module reaches (after the start, after any number of
  ticks, readjustments, load changes and shutdown signals) the current interval is the
  initial interval of the configuration, so it lies between the minimum of 10000 and
  the maximum of 120000 exactly when \<^verbatim>\<open>parseInt(DASHBOARD_UPDATE_INTERVAL || 30)\<close> is a
  number from 10 to 120; with the variable unset it is 30000. Nothing clamps it.
\<close>

theorem interval_within_bounds:
  "withinBounds (DASHBOARD_UPDATE_CONFIG env th) (run (DASHBOARD_UPDATE_CONFIG env th) is)
     = (case parseIntEnv env 30 of None \<Rightarrow> False | Some n \<Rightarrow> 10 \<le> n \<and> n \<le> 120)"
proof -
  have "dashboardUpdateInterval (run (DASHBOARD_UPDATE_CONFIG env th) is)
          = times (parseIntEnv env 30) 1000"
    by (simp add: run_interval DASHBOARD_UPDATE_CONFIG_def)
  then show ?thesis
    by (cases "parseIntEnv env 30")
       (simp_all add: withinBounds_def times_def DASHBOARD_UPDATE_CONFIG_def)
qed

lemma interval_9: "initialInterval (DASHBOARD_UPDATE_CONFIG (Some ''9'') None) = Some 9000"
  by (simp add: DASHBOARD_UPDATE_CONFIG_def parseIntEnv_def parseInt_def isStrWhiteSpace_def
        digitOf_def times_def Let_def)

text \<open>
  C4: the code does not do what the claim says. With the default configuration the
  signal arrives 295 seconds after the start. \<^verbatim>\<open>gracefulShutdown\<close> clears the broadcast
  timer and arms the forced exit for 305 s, but the five-minute timer (handle 1), whose
  handle the module never kept, stays armed: it fires at 300 s, and
  \<^verbatim>\<open>adjustUpdateInterval\<close> arms a broadcast timer again (handle 3). With
  \<^verbatim>\<open>DASHBOARD_UPDATE_INTERVAL=9\<close> and the signal at 299.5 s, the timer armed at 300 s fires
  at 309 s, before the forced exit at 309.5 s, and the dashboard is broadcast a 34th
  time, after the shutdown.
\<close>

theorem shutdown_leaves_readjust_timer_armed:
  "now (run (DASHBOARD_UPDATE_CONFIG None None) (ticks 9 @ [ShutdownSignal 25000])) = 295000
   \<and> timers (run (DASHBOARD_UPDATE_CONFIG None None) (ticks 9 @ [ShutdownSignal 25000]))
       = [Timer 1 Readjust (Some 300000) True 300000, Timer 2 ForceExit (Some 10000) False 305000]
   \<and> timers (run (DASHBOARD_UPDATE_CONFIG None None) (ticks 9 @ [ShutdownSignal 25000, TimerFires 1]))
       = [Timer 1 Readjust (Some 300000) True 600000, Timer 2 ForceExit (Some 10000) False 305000,
          Timer 3 BroadcastTick (Some 30000) True 330000]
   \<and> \<not> exited (run (DASHBOARD_UPDATE_CONFIG None None) (ticks 9 @ [ShutdownSignal 25000, TimerFires 1]))
   \<and> broadcasts (run (DASHBOARD_UPDATE_CONFIG (Some ''9'') None) (ticks 33 @ [ShutdownSignal 2500])) = 33
   \<and> timers (run (DASHBOARD_UPDATE_CONFIG (Some ''9'') None)
               (ticks 33 @ [ShutdownSignal 2500, TimerFires 1]))
       = [Timer 1 Readjust (Some 300000) True 600000, Timer 2 ForceExit (Some 10000) False 309500,
          Timer 3 BroadcastTick (Some 9000) True 309000]
   \<and> broadcasts (run (DASHBOARD_UPDATE_CONFIG (Some ''9'') None)
                   (ticks 33 @ [ShutdownSignal 2500, TimerFires 1, TimerFires 3])) = 34
   \<and> \<not> exited (run (DASHBOARD_UPDATE_CONFIG (Some ''9'') None)
                   (ticks 33 @ [ShutdownSignal 2500, TimerFires 1, TimerFires 3]))"
proof -
  have t: "run (DASHBOARD_UPDATE_CONFIG None None) (ticks 9) =
       \<lparr> dashboardUpdateInterval = Some 30000, updateIntervalId = Some 0,
         timers = [Timer 0 BroadcastTick (Some 30000) True 300000,
                   Timer 1 Readjust (Some 300000) True 300000],
         nextTimer = 2, connectedAdmins = 0, broadcasts = 9, closing = False, exited = False,
         now = 270000 \<rparr>"
    using run_ticks[of "DASHBOARD_UPDATE_CONFIG None None" 30000 9]
    by (simp add: default_initial_interval)
  have u: "run (DASHBOARD_UPDATE_CONFIG (Some ''9'') None) (ticks 33) =
       \<lparr> dashboardUpdateInterval = Some 9000, updateIntervalId = Some 0,
         timers = [Timer 0 BroadcastTick (Some 9000) True 306000,
                   Timer 1 Readjust (Some 300000) True 300000],
         nextTimer = 2, connectedAdmins = 0, broadcasts = 33, closing = False, exited = False,
         now = 297000 \<rparr>"
    using run_ticks[of "DASHBOARD_UPDATE_CONFIG (Some ''9'') None" 9000 33]
    by (simp add: interval_9)
  show ?thesis
    by (simp add: run_append t u default_initial_interval interval_9 step_def fire_def
          dueFirst_def reschedule_def gracefulShutdown_def setTimeout_def
          adjustUpdateInterval_def setInterval_def clearInterval_def effectiveDelay_def Let_def)
qed

section \<open>Properties of the handlers\<close>

subsection \<open>Rules for the outcome of a computation\<close>

lemma post_ret: "post (ret x) w Q = Q (Inr x) w []"
  by (simp add: post_def ret_def)

lemma post_logger: "post (logger ev) w Q = Q (Inr ()) w [ev]"
  by (simp add: post_def logger_def)

lemma post_invoke:
  "post (invoke c f) w Q =
     (case f w of (Inl e, w1) \<Rightarrow> Q (Inl e) w1 [Call c (Threw e)]
                | (Inr x, w1) \<Rightarrow> Q (Inr x) w1 [Call c Returned])"
  by (simp add: post_def invoke_def split: prod.split sum.split)

lemma post_bnd:
  "post (bnd m f) w Q =
     post m w (\<lambda>r w1 t1. case r of Inl e \<Rightarrow> Q (Inl e) w1 t1
                                  | Inr x \<Rightarrow> post (f x) w1 (\<lambda>r2 w2 t2. Q r2 w2 (t1 @ t2)))"
  by (simp add: post_def bnd_def split: prod.split sum.split)

lemma post_tryCatch:
  "post (tryCatch m h) w Q =
     post m w (\<lambda>r w1 t1. case r of Inl e \<Rightarrow> post (h e) w1 (\<lambda>r2 w2 t2. Q r2 w2 (t1 @ t2))
                                  | Inr x \<Rightarrow> Q (Inr x) w1 t1)"
  by (simp add: post_def tryCatch_def split: prod.split sum.split)

lemma post_start:
  "post (start c f) w Q =
     (case f w of (Inl e, w1) \<Rightarrow> Q (Inl e) w1 [Call c (Threw e)]
                | (Inr Settled, w1) \<Rightarrow> Q (Inr ()) w1 [Call c Returned]
                | (Inr Unsettled, w1) \<Rightarrow> Q (Inr ()) w1 [Call c Pending])"
  by (simp add: post_def start_def split: prod.split sum.split settlement.split)

lemmas post_simps = post_ret post_logger post_invoke post_start post_bnd post_tryCatch

lemmas prog_defs = ret_def bnd_def tryCatch_def invoke_def start_def logger_def

lemmas call_defs = callSellerFindById_def callCustomerFindById_def callSellerSave_def
  callCustomerSave_def callAgreementFind_def callRateCardFind_def callInvalidateCachePattern_def
  callGetIO_def callEmit_def callGetSellerProfile_def callGetCustomerProfile_def

lemmas store_defs = storeCollab_def storeSellerFindById_def storeCustomerFindById_def
  storeSellerSave_def storeCustomerSave_def storeAgreementFind_def storeRateCardFind_def
  storeGetIO_def storeEmit_def specInvalidateCachePattern_def settle_def readCache_def
  specGetSellerProfile_def loadSellerProfile_def specGetCustomerProfile_def
  loadCustomerProfile_def PROFILE_TTL_def
  execQuery_def preFind_def findFamily_def sellerStatusEnum_def

lemmas example_defs = sellerS1_def customerC1_def world0_def activateS1_def activateC1_def
  noFaults_def socketDown_def loaderDown_def adminRoomDown_def deleteDown_def lateDelete_def
  setSellerStatus_def setCustomerStatus_def

lemma post_holds:
  "post m w Q \<Longrightarrow> Q (resultOf (m w)) (worldOf (m w)) (traceOf (m w))"
  by (simp add: post_def resultOf_def worldOf_def traceOf_def split: prod.splits)

lemma post_mono: "post m w Q \<Longrightarrow> (\<And>r w' t. Q r w' t \<Longrightarrow> Q' r w' t) \<Longrightarrow> post m w Q'"
  by (auto simp: post_def split: prod.splits)

subsection \<open>Status updates\<close>

lemma seller_failfast:
  "post (updateSellerStatus c req) w (\<lambda>r w' t.
      (\<exists>resp. r = Inr resp) \<and> afterThrow t = [] \<and>
      prefix (emittedRooms t) (targetsFor ''seller'' (param_id req)) \<and>
      prefix (deliveredRooms t) (emittedRooms t) \<and>
      length (emittedRooms t) \<le> Suc (length (deliveredRooms t)))"
  by (simp add: updateSellerStatus_def sellerBroadcast_def post_simps call_defs targetsFor_def Let_def
      split: prod.split sum.split option.split settlement.split)

lemma customer_failfast:
  "post (updateCustomerStatus c req) w (\<lambda>r w' t.
      (\<exists>resp. r = Inr resp) \<and> afterThrow t = [] \<and>
      prefix (emittedRooms t) (targetsFor ''customer'' (param_id req)) \<and>
      prefix (deliveredRooms t) (emittedRooms t) \<and>
      length (emittedRooms t) \<le> Suc (length (deliveredRooms t)))"
  by (simp add: updateCustomerStatus_def customerBroadcast_def post_simps call_defs targetsFor_def Let_def
      split: prod.split sum.split option.split settlement.split)

lemma seller_persisted:
  assumes "Seller_findById c (param_id req) w = (Inr (Some seller), w1)"
    and "seller_save c (setSellerStatus req seller) w1 = (Inr saved, w2)"
  shows "post (updateSellerStatus c req) w (\<lambda>r w' t.
      r = Inr (Json 200 (SellerBody saved)) \<and>
      warnings t = map (\<lambda>m. ''Failed to broadcast seller update: '' @ m) (thrownMessages t) \<and>
      loggedErrors t = [])"
  using assms
  by (simp add: updateSellerStatus_def sellerBroadcast_def post_simps call_defs Let_def
      split: prod.split sum.split option.split settlement.split)

lemma customer_persisted:
  assumes "Customer_findById c (param_id req) w = (Inr (Some customer), w1)"
    and "customer_save c (setCustomerStatus req customer) w1 = (Inr saved, w2)"
  shows "post (updateCustomerStatus c req) w (\<lambda>r w' t.
      r = Inr (Json 200 (CustomerBody saved)) \<and>
      warnings t = map (\<lambda>m. ''Failed to broadcast customer update: '' @ m) (thrownMessages t) \<and>
      loggedErrors t = [])"
  using assms
  by (simp add: updateCustomerStatus_def customerBroadcast_def post_simps call_defs Let_def
      split: prod.split sum.split option.split settlement.split)

lemma seller_targets:
  "post (updateSellerStatus c req) w (\<lambda>r w' t.
      (\<exists>b. r = Inr (Json 200 b)) \<and> filter threw t = [] \<longrightarrow>
        emittedRooms t = targetsFor ''seller'' (param_id req) \<and>
        deliveredRooms t = targetsFor ''seller'' (param_id req))"
  by (simp add: updateSellerStatus_def sellerBroadcast_def post_simps call_defs targetsFor_def Let_def
      split: prod.split sum.split option.split settlement.split)

lemma customer_targets:
  "post (updateCustomerStatus c req) w (\<lambda>r w' t.
      (\<exists>b. r = Inr (Json 200 b)) \<and> filter threw t = [] \<longrightarrow>
        emittedRooms t = targetsFor ''customer'' (param_id req) \<and>
        deliveredRooms t = targetsFor ''customer'' (param_id req))"
  by (simp add: updateCustomerStatus_def customerBroadcast_def post_simps call_defs targetsFor_def Let_def
      split: prod.split sum.split option.split settlement.split)

text \<open>
  C3, as the claim states it, fails. The registry fails the delivery to the admin room
  of seller \<open>s1\<close>: of the three targets the dashboard room is published to, the admin
  room is attempted, and the seller's own room is never attempted, nor is its profile
  fetched a second time. And when the profile fetch for the admin room fails, neither
  the admin room nor the seller's own room is attempted.
\<close>

theorem broadcast_partial_failure_counterexample:
  "emitFault adminRoomDown ''admin-seller-s1'' = Some (Error ''delivery failed'')
   \<and> targetsFor ''seller'' ''s1'' = [''admin-dashboard'', ''admin-seller-s1'', ''seller-s1'']
   \<and> emittedRooms (traceOf (updateSellerStatus (storeCollab adminRoomDown) activateS1 world0))
        = [''admin-dashboard'', ''admin-seller-s1'']
   \<and> deliveredRooms (traceOf (updateSellerStatus (storeCollab adminRoomDown) activateS1 world0))
        = [''admin-dashboard'']
   \<and> fetches (traceOf (updateSellerStatus (storeCollab adminRoomDown) activateS1 world0))
        = [(SellerModel, ''s1'', False)]
   \<and> fetches (traceOf (updateSellerStatus (storeCollab loaderDown) activateS1 world0))
        = [(SellerModel, ''s1'', True)]
   \<and> emittedRooms (traceOf (updateSellerStatus (storeCollab loaderDown) activateS1 world0))
        = [''admin-dashboard'']"
  by (simp add: updateSellerStatus_def sellerBroadcast_def prog_defs call_defs store_defs
        example_defs targetsFor_def traceOf_def Let_def)

text \<open>
  C3, amended: a status update never ends in an unhandled failure. The targets are
  published to in the fixed order dashboard room, admin room, own room; a failing emit
  or profile fetch ends the broadcast: no call is made after the call that threw, the
  rooms attempted are a prefix of the three targets, and the rooms delivered to are the
  rooms attempted without, at most, the last.
\<close>

theorem broadcast_failure_caught_and_stops:
  "(\<exists>resp. resultOf (updateSellerStatus c req w) = Inr resp)
   \<and> afterThrow (traceOf (updateSellerStatus c req w)) = []
   \<and> prefix (emittedRooms (traceOf (updateSellerStatus c req w))) (targetsFor ''seller'' (param_id req))
   \<and> prefix (deliveredRooms (traceOf (updateSellerStatus c req w)))
        (emittedRooms (traceOf (updateSellerStatus c req w)))
   \<and> length (emittedRooms (traceOf (updateSellerStatus c req w)))
        \<le> Suc (length (deliveredRooms (traceOf (updateSellerStatus c req w))))
   \<and> (\<exists>resp. resultOf (updateCustomerStatus c req w) = Inr resp)
   \<and> afterThrow (traceOf (updateCustomerStatus c req w)) = []
   \<and> prefix (emittedRooms (traceOf (updateCustomerStatus c req w))) (targetsFor ''customer'' (param_id req))
   \<and> prefix (deliveredRooms (traceOf (updateCustomerStatus c req w)))
        (emittedRooms (traceOf (updateCustomerStatus c req w)))
   \<and> length (emittedRooms (traceOf (updateCustomerStatus c req w)))
        \<le> Suc (length (deliveredRooms (traceOf (updateCustomerStatus c req w))))"
  using post_holds[OF seller_failfast, of c req w] post_holds[OF customer_failfast, of c req w]
  by simp

theorem broadcast_failure_witness:
  "resultOf (updateSellerStatus (storeCollab adminRoomDown) activateS1 world0)
     = Inr (Json 200 (SellerBody (setSellerStatus activateS1 sellerS1)))
   \<and> afterThrow (traceOf (updateSellerStatus (storeCollab adminRoomDown) activateS1 world0)) = []
   \<and> thrownMessages (traceOf (updateSellerStatus (storeCollab adminRoomDown) activateS1 world0))
       = [''delivery failed'']"
  using broadcast_failure_caught_and_stops[of "storeCollab adminRoomDown" activateS1 world0]
  by (simp add: updateSellerStatus_def sellerBroadcast_def prog_defs call_defs store_defs
        example_defs resultOf_def traceOf_def Let_def)

text \<open>
  C5: once the document is found and saved, an update of a seller's or a customer's
  status responds with 200 and the saved document, whatever the cache helper, the
  socket server, the emits and the profile fetches do; what they throw is logged as a
  warning, and nothing is logged as an error.
\<close>

theorem write_survives_broadcast_failure:
  "(Seller_findById c (param_id req) w = (Inr (Some seller), w1) \<longrightarrow>
    seller_save c (setSellerStatus req seller) w1 = (Inr savedSeller, w2) \<longrightarrow>
      resultOf (updateSellerStatus c req w) = Inr (Json 200 (SellerBody savedSeller))
      \<and> warnings (traceOf (updateSellerStatus c req w))
          = map (\<lambda>m. ''Failed to broadcast seller update: '' @ m)
              (thrownMessages (traceOf (updateSellerStatus c req w)))
      \<and> loggedErrors (traceOf (updateSellerStatus c req w)) = [])
   \<and> (Customer_findById c (param_id req) w = (Inr (Some customer), w3) \<longrightarrow>
      customer_save c (setCustomerStatus req customer) w3 = (Inr savedCustomer, w4) \<longrightarrow>
      resultOf (updateCustomerStatus c req w) = Inr (Json 200 (CustomerBody savedCustomer))
      \<and> warnings (traceOf (updateCustomerStatus c req w))
          = map (\<lambda>m. ''Failed to broadcast customer update: '' @ m)
              (thrownMessages (traceOf (updateCustomerStatus c req w)))
      \<and> loggedErrors (traceOf (updateCustomerStatus c req w)) = [])"
proof (intro conjI impI)
  assume "Seller_findById c (param_id req) w = (Inr (Some seller), w1)"
    and "seller_save c (setSellerStatus req seller) w1 = (Inr savedSeller, w2)"
  from post_holds[OF seller_persisted[OF this]]
  show "resultOf (updateSellerStatus c req w) = Inr (Json 200 (SellerBody savedSeller))"
    and "warnings (traceOf (updateSellerStatus c req w))
          = map (\<lambda>m. ''Failed to broadcast seller update: '' @ m)
              (thrownMessages (traceOf (updateSellerStatus c req w)))"
    and "loggedErrors (traceOf (updateSellerStatus c req w)) = []"
    by simp_all
next
  assume "Customer_findById c (param_id req) w = (Inr (Some customer), w3)"
    and "customer_save c (setCustomerStatus req customer) w3 = (Inr savedCustomer, w4)"
  from post_holds[OF customer_persisted[OF this]]
  show "resultOf (updateCustomerStatus c req w) = Inr (Json 200 (CustomerBody savedCustomer))"
    and "warnings (traceOf (updateCustomerStatus c req w))
          = map (\<lambda>m. ''Failed to broadcast customer update: '' @ m)
              (thrownMessages (traceOf (updateCustomerStatus c req w)))"
    and "loggedErrors (traceOf (updateCustomerStatus c req w)) = []"
    by simp_all
qed

theorem write_survives_witness:
  "Seller_findById (storeCollab socketDown) (param_id activateS1) world0 = (Inr (Some sellerS1), world0)
   \<and> seller_save (storeCollab socketDown) (setSellerStatus activateS1 sellerS1) world0
       = (Inr (setSellerStatus activateS1 sellerS1),
          world0\<lparr>sellerCollection := [setSellerStatus activateS1 sellerS1]\<rparr>)
   \<and> resultOf (updateSellerStatus (storeCollab socketDown) activateS1 world0)
       = Inr (Json 200 (SellerBody (setSellerStatus activateS1 sellerS1)))
   \<and> warnings (traceOf (updateSellerStatus (storeCollab socketDown) activateS1 world0))
       = [''Failed to broadcast seller update: Socket.IO not initialized'']
   \<and> Customer_findById (storeCollab socketDown) (param_id activateC1) world0 = (Inr (Some customerC1), world0)
   \<and> customer_save (storeCollab socketDown) (setCustomerStatus activateC1 customerC1) world0
       = (Inr (setCustomerStatus activateC1 customerC1),
          world0\<lparr>customerCollection := [setCustomerStatus activateC1 customerC1]\<rparr>)
   \<and> resultOf (updateCustomerStatus (storeCollab socketDown) activateC1 world0)
       = Inr (Json 200 (CustomerBody (setCustomerStatus activateC1 customerC1)))"
proof -
  have s1: "Seller_findById (storeCollab socketDown) (param_id activateS1) world0
              = (Inr (Some sellerS1), world0)"
    by (simp add: store_defs example_defs)
  have s2: "seller_save (storeCollab socketDown) (setSellerStatus activateS1 sellerS1) world0
       = (Inr (setSellerStatus activateS1 sellerS1),
          world0\<lparr>sellerCollection := [setSellerStatus activateS1 sellerS1]\<rparr>)"
    by (simp add: store_defs example_defs)
  have c1: "Customer_findById (storeCollab socketDown) (param_id activateC1) world0
              = (Inr (Some customerC1), world0)"
    by (simp add: store_defs example_defs)
  have c2: "customer_save (storeCollab socketDown) (setCustomerStatus activateC1 customerC1) world0
       = (Inr (setCustomerStatus activateC1 customerC1),
          world0\<lparr>customerCollection := [setCustomerStatus activateC1 customerC1]\<rparr>)"
    by (simp add: store_defs example_defs)
  have w: "thrownMessages (traceOf (updateSellerStatus (storeCollab socketDown) activateS1 world0))
             = [''Socket.IO not initialized'']"
    by (simp add: updateSellerStatus_def sellerBroadcast_def prog_defs call_defs store_defs
          example_defs traceOf_def Let_def)
  from write_survives_broadcast_failure[of "storeCollab socketDown" activateS1 world0 sellerS1 world0
      "setSellerStatus activateS1 sellerS1" "world0\<lparr>sellerCollection := [setSellerStatus activateS1 sellerS1]\<rparr>"
      customerC1 world0 "setCustomerStatus activateC1 customerC1"
      "world0\<lparr>customerCollection := [setCustomerStatus activateC1 customerC1]\<rparr>"]
    write_survives_broadcast_failure[of "storeCollab socketDown" activateC1 world0 sellerS1 world0
      "setSellerStatus activateS1 sellerS1" "world0\<lparr>sellerCollection := [setSellerStatus activateS1 sellerS1]\<rparr>"
      customerC1 world0 "setCustomerStatus activateC1 customerC1"
      "world0\<lparr>customerCollection := [setCustomerStatus activateC1 customerC1]\<rparr>"]
  show ?thesis using s1 s2 c1 c2 w by simp
qed

text \<open>
  C6: a status update of entity \<open>i\<close> in which the document is found and no call throws
  emits to exactly the three targets of the specification, in this order: the dashboard
  room, the admin room of the entity and the entity's own room. The three rooms differ
  from one another, and they are a function of the entity type and the identifier
  alone, whatever the collaborators and the world are.
\<close>

theorem status_change_targets:
  "((\<exists>b. resultOf (updateSellerStatus c req w) = Inr (Json 200 b))
      \<and> filter threw (traceOf (updateSellerStatus c req w)) = [] \<longrightarrow>
      emittedRooms (traceOf (updateSellerStatus c req w)) = targetsFor ''seller'' (param_id req)
      \<and> deliveredRooms (traceOf (updateSellerStatus c req w)) = targetsFor ''seller'' (param_id req))
   \<and> ((\<exists>b. resultOf (updateCustomerStatus c req w) = Inr (Json 200 b))
      \<and> filter threw (traceOf (updateCustomerStatus c req w)) = [] \<longrightarrow>
      emittedRooms (traceOf (updateCustomerStatus c req w)) = targetsFor ''customer'' (param_id req)
      \<and> deliveredRooms (traceOf (updateCustomerStatus c req w)) = targetsFor ''customer'' (param_id req))
   \<and> targetsFor ''seller'' i = [''admin-dashboard'', ''admin-seller-'' @ i, ''seller-'' @ i]
   \<and> targetsFor ''customer'' i = [''admin-dashboard'', ''admin-customer-'' @ i, ''customer-'' @ i]
   \<and> card (set (targetsFor ''seller'' i)) = 3
   \<and> card (set (targetsFor ''customer'' i)) = 3"
proof -
  have d: "distinct (targetsFor ''seller'' i)" "distinct (targetsFor ''customer'' i)"
    by (simp_all add: targetsFor_def)
  have l: "length (targetsFor ''seller'' i) = 3" "length (targetsFor ''customer'' i) = 3"
    by (simp_all add: targetsFor_def)
  have cards: "card (set (targetsFor ''seller'' i)) = 3" "card (set (targetsFor ''customer'' i)) = 3"
    using d l by (simp_all only: distinct_card)
  have names: "targetsFor ''seller'' i = [''admin-dashboard'', ''admin-seller-'' @ i, ''seller-'' @ i]"
    "targetsFor ''customer'' i = [''admin-dashboard'', ''admin-customer-'' @ i, ''customer-'' @ i]"
    by (simp_all add: targetsFor_def)
  show ?thesis
    using post_holds[OF seller_targets, of c req w] post_holds[OF customer_targets, of c req w]
      cards names
    by blast
qed

theorem status_change_targets_witness:
  "resultOf (updateSellerStatus (storeCollab noFaults) activateS1 world0)
      = Inr (Json 200 (SellerBody (setSellerStatus activateS1 sellerS1)))
   \<and> filter threw (traceOf (updateSellerStatus (storeCollab noFaults) activateS1 world0)) = []
   \<and> emittedRooms (traceOf (updateSellerStatus (storeCollab noFaults) activateS1 world0))
      = [''admin-dashboard'', ''admin-seller-s1'', ''seller-s1'']
   \<and> resultOf (updateCustomerStatus (storeCollab noFaults) activateC1 world0)
      = Inr (Json 200 (CustomerBody (setCustomerStatus activateC1 customerC1)))
   \<and> filter threw (traceOf (updateCustomerStatus (storeCollab noFaults) activateC1 world0)) = []
   \<and> emittedRooms (traceOf (updateCustomerStatus (storeCollab noFaults) activateC1 world0))
      = [''admin-dashboard'', ''admin-customer-c1'', ''customer-c1'']"
proof -
  have r: "resultOf (updateSellerStatus (storeCollab noFaults) activateS1 world0)
      = Inr (Json 200 (SellerBody (setSellerStatus activateS1 sellerS1)))"
    "filter threw (traceOf (updateSellerStatus (storeCollab noFaults) activateS1 world0)) = []"
    by (simp_all add: updateSellerStatus_def sellerBroadcast_def prog_defs call_defs store_defs
          example_defs resultOf_def traceOf_def Let_def)
  have rc: "resultOf (updateCustomerStatus (storeCollab noFaults) activateC1 world0)
      = Inr (Json 200 (CustomerBody (setCustomerStatus activateC1 customerC1)))"
    "filter threw (traceOf (updateCustomerStatus (storeCollab noFaults) activateC1 world0)) = []"
    by (simp_all add: updateCustomerStatus_def customerBroadcast_def prog_defs call_defs store_defs
          example_defs resultOf_def traceOf_def Let_def)
  from status_change_targets[of "storeCollab noFaults" activateS1 world0 "''s1''"]
       status_change_targets[of "storeCollab noFaults" activateC1 world0 "''c1''"] r rc
  show ?thesis by (simp add: activateS1_def activateC1_def)
qed

subsection \<open>The detail handlers\<close>

lemma seller_details_fallback:
  assumes "getSellerProfile c i w = (Inl e, w1)"
  shows "post (getSellerDetails c i) w (\<lambda>r w' t.
      (\<exists>resp. r = Inr resp) \<and>
      take 2 t = [Call (GetProfile SellerModel i) (Threw e),
                  LogWarn (''Failed to get seller profile from cache: '' @ message e)] \<and>
      map isCall (take 3 t) = [True, False, True] \<and>
      emittedRooms t = [] \<and> (\<exists>out. t ! 2 = Call (FindById SellerModel i) out))"
  using assms
  by (simp add: getSellerDetails_def post_simps call_defs Let_def
      split: prod.split sum.split option.split settlement.split)

lemma customer_details_fallback:
  assumes "getCustomerProfile c i w = (Inl e, w1)"
  shows "post (getCustomerDetails c i) w (\<lambda>r w' t.
      (\<exists>resp. r = Inr resp) \<and>
      take 2 t = [Call (GetProfile CustomerModel i) (Threw e),
                  LogWarn (''Failed to get customer profile from cache: '' @ message e)] \<and>
      (\<exists>out. t ! 2 = Call (FindById CustomerModel i) out))"
  using assms
  by (simp add: getCustomerDetails_def post_simps call_defs Let_def
      split: prod.split sum.split option.split settlement.split)

lemma seller_details_db:
  assumes "getSellerProfile c i w = (Inl e, w1)"
    and "Seller_findById c i w1 = (Inr (Some seller), w2)"
    and "Agreement_find c i w2 = (Inr ags, w3)"
    and "RateCard_find c i w3 = (Inr rcs, w4)"
  shows "getSellerDetails c i w =
     (Inr (Json 200 (SellerDetailsBody seller
         \<lparr> kyc_status = s_status seller,
           kyc_documents = (case s_documents seller of None \<Rightarrow> [] | Some d \<Rightarrow> d),
           kyc_businessName = s_businessName seller, kyc_gstin = s_gstin seller \<rparr> ags rcs False)),
      w4,
      [Call (GetProfile SellerModel i) (Threw e),
       LogWarn (''Failed to get seller profile from cache: '' @ message e),
       Call (FindById SellerModel i) Returned,
       Call (Find AgreementModel i) Returned,
       Call (Find RateCardModel i) Returned])"
  using assms
  by (simp add: getSellerDetails_def prog_defs call_defs Let_def)

lemma customer_details_db:
  assumes "getCustomerProfile c i w = (Inl e, w1)"
    and "Customer_findById c i w1 = (Inr (Some customer), w2)"
  shows "getCustomerDetails c i w =
     (Inr (Json 200 (CustomerDetailsBody customer
         (case c_addresses customer of None \<Rightarrow> [] | Some a \<Rightarrow> if length a > 0 then a else []) False)),
      w2,
      [Call (GetProfile CustomerModel i) (Threw e),
       LogWarn (''Failed to get customer profile from cache: '' @ message e),
       Call (FindById CustomerModel i) Returned])"
  using assms
  by (simp add: getCustomerDetails_def prog_defs call_defs Let_def)

text \<open>
  C8: when the profile service throws, \<^verbatim>\<open>getSellerDetails\<close> and \<^verbatim>\<open>getCustomerDetails\<close> catch
  the error, log a warning and query the collection by the identifier next; no error
  escapes the handler. When the collection has the document (and, for a seller, the
  agreements and rate cards are read), the response is 200 with that document and
  \<open>isRealtime = False\<close>.
\<close>

theorem profile_failure_falls_back_to_database:
  "(getSellerProfile c i w = (Inl e, w1) \<longrightarrow>
      (\<exists>resp. resultOf (getSellerDetails c i w) = Inr resp)
      \<and> take 2 (traceOf (getSellerDetails c i w))
           = [Call (GetProfile SellerModel i) (Threw e),
              LogWarn (''Failed to get seller profile from cache: '' @ message e)]
      \<and> (\<exists>out. traceOf (getSellerDetails c i w) ! 2 = Call (FindById SellerModel i) out)
      \<and> (Seller_findById c i w1 = (Inr (Some seller), w2) \<longrightarrow>
          Agreement_find c i w2 = (Inr ags, w3) \<longrightarrow>
          RateCard_find c i w3 = (Inr rcs, w4) \<longrightarrow>
            resultOf (getSellerDetails c i w) =
              Inr (Json 200 (SellerDetailsBody seller
                \<lparr> kyc_status = s_status seller,
                  kyc_documents = (case s_documents seller of None \<Rightarrow> [] | Some d \<Rightarrow> d),
                  kyc_businessName = s_businessName seller, kyc_gstin = s_gstin seller \<rparr>
                ags rcs False))))
   \<and> (getCustomerProfile c i w = (Inl e, w1) \<longrightarrow>
      (\<exists>resp. resultOf (getCustomerDetails c i w) = Inr resp)
      \<and> take 2 (traceOf (getCustomerDetails c i w))
           = [Call (GetProfile CustomerModel i) (Threw e),
              LogWarn (''Failed to get customer profile from cache: '' @ message e)]
      \<and> (\<exists>out. traceOf (getCustomerDetails c i w) ! 2 = Call (FindById CustomerModel i) out)
      \<and> (Customer_findById c i w1 = (Inr (Some customer), w5) \<longrightarrow>
            resultOf (getCustomerDetails c i w) =
              Inr (Json 200 (CustomerDetailsBody customer
                (case c_addresses customer of None \<Rightarrow> [] | Some a \<Rightarrow> if length a > 0 then a else [])
                False))))"
proof (intro conjI impI)
  assume p: "getSellerProfile c i w = (Inl e, w1)"
  from post_holds[OF seller_details_fallback[OF p]]
  show "\<exists>resp. resultOf (getSellerDetails c i w) = Inr resp"
    and "take 2 (traceOf (getSellerDetails c i w))
           = [Call (GetProfile SellerModel i) (Threw e),
              LogWarn (''Failed to get seller profile from cache: '' @ message e)]"
    and "\<exists>out. traceOf (getSellerDetails c i w) ! 2 = Call (FindById SellerModel i) out"
    by simp_all
  assume "Seller_findById c i w1 = (Inr (Some seller), w2)"
    and "Agreement_find c i w2 = (Inr ags, w3)"
    and "RateCard_find c i w3 = (Inr rcs, w4)"
  from seller_details_db[OF p this]
  show "resultOf (getSellerDetails c i w) =
              Inr (Json 200 (SellerDetailsBody seller
                \<lparr> kyc_status = s_status seller,
                  kyc_documents = (case s_documents seller of None \<Rightarrow> [] | Some d \<Rightarrow> d),
                  kyc_businessName = s_businessName seller, kyc_gstin = s_gstin seller \<rparr>
                ags rcs False))"
    by (simp add: resultOf_def)
next
  assume p: "getCustomerProfile c i w = (Inl e, w1)"
  from post_holds[OF customer_details_fallback[OF p]]
  show "\<exists>resp. resultOf (getCustomerDetails c i w) = Inr resp"
    and "take 2 (traceOf (getCustomerDetails c i w))
           = [Call (GetProfile CustomerModel i) (Threw e),
              LogWarn (''Failed to get customer profile from cache: '' @ message e)]"
    and "\<exists>out. traceOf (getCustomerDetails c i w) ! 2 = Call (FindById CustomerModel i) out"
    by simp_all
  assume "Customer_findById c i w1 = (Inr (Some customer), w5)"
  from customer_details_db[OF p this]
  show "resultOf (getCustomerDetails c i w) =
              Inr (Json 200 (CustomerDetailsBody customer
                (case c_addresses customer of None \<Rightarrow> [] | Some a \<Rightarrow> if length a > 0 then a else [])
                False))"
    by (simp add: resultOf_def)
qed

theorem profile_failure_witness:
  "getSellerProfile (storeCollab loaderDown) ''s1'' coldWorld
     = (Inl (Error ''ProfileUnavailable''),
        coldWorld\<lparr>cacheLog := [ReadRequested ''seller:s1:profile'']\<rparr>)
   \<and> Seller_findById (storeCollab loaderDown) ''s1''
         (coldWorld\<lparr>cacheLog := [ReadRequested ''seller:s1:profile'']\<rparr>)
       = (Inr (Some sellerS1), coldWorld\<lparr>cacheLog := [ReadRequested ''seller:s1:profile'']\<rparr>)
   \<and> Agreement_find (storeCollab loaderDown) ''s1''
         (coldWorld\<lparr>cacheLog := [ReadRequested ''seller:s1:profile'']\<rparr>)
       = (Inr [], coldWorld\<lparr>cacheLog := [ReadRequested ''seller:s1:profile'']\<rparr>)
   \<and> RateCard_find (storeCollab loaderDown) ''s1''
         (coldWorld\<lparr>cacheLog := [ReadRequested ''seller:s1:profile'']\<rparr>)
       = (Inr [], coldWorld\<lparr>cacheLog := [ReadRequested ''seller:s1:profile'']\<rparr>)
   \<and> resultOf (getSellerDetails (storeCollab loaderDown) ''s1'' coldWorld)
       = Inr (Json 200 (SellerDetailsBody sellerS1
           \<lparr> kyc_status = ''pending'', kyc_documents = [], kyc_businessName = ''Acme'',
             kyc_gstin = None \<rparr> [] [] False))
   \<and> getCustomerProfile (storeCollab loaderDown) ''c1'' coldWorld
       = (Inl (Error ''ProfileUnavailable''),
          coldWorld\<lparr>cacheLog := [ReadRequested ''customer:c1:profile'']\<rparr>)
   \<and> Customer_findById (storeCollab loaderDown) ''c1''
         (coldWorld\<lparr>cacheLog := [ReadRequested ''customer:c1:profile'']\<rparr>)
       = (Inr (Some customerC1), coldWorld\<lparr>cacheLog := [ReadRequested ''customer:c1:profile'']\<rparr>)
   \<and> resultOf (getCustomerDetails (storeCollab loaderDown) ''c1'' coldWorld)
       = Inr (Json 200 (CustomerDetailsBody customerC1 [] False))"
proof -
  let ?ws = "coldWorld\<lparr>cacheLog := [ReadRequested ''seller:s1:profile'']\<rparr>"
  let ?wc = "coldWorld\<lparr>cacheLog := [ReadRequested ''customer:c1:profile'']\<rparr>"
  have h: "getSellerProfile (storeCollab loaderDown) ''s1'' coldWorld
             = (Inl (Error ''ProfileUnavailable''), ?ws)"
    "Seller_findById (storeCollab loaderDown) ''s1'' ?ws = (Inr (Some sellerS1), ?ws)"
    "Agreement_find (storeCollab loaderDown) ''s1'' ?ws = (Inr [], ?ws)"
    "RateCard_find (storeCollab loaderDown) ''s1'' ?ws = (Inr [], ?ws)"
    "getCustomerProfile (storeCollab loaderDown) ''c1'' coldWorld
             = (Inl (Error ''ProfileUnavailable''), ?wc)"
    "Customer_findById (storeCollab loaderDown) ''c1'' ?wc = (Inr (Some customerC1), ?wc)"
    by (simp_all add: store_defs example_defs coldWorld_def Let_def)
  from profile_failure_falls_back_to_database[of "storeCollab loaderDown" "''s1''" coldWorld
         "Error ''ProfileUnavailable''" ?ws sellerS1 ?ws "[]" ?ws "[]" ?ws]
       profile_failure_falls_back_to_database[of "storeCollab loaderDown" "''c1''" coldWorld
         "Error ''ProfileUnavailable''" ?wc _ _ _ _ _ _ customerC1 ?wc]
  show ?thesis using h by (simp add: sellerS1_def customerC1_def)
qed

subsection \<open>The realtime listing\<close>

lemma fetches_append: "fetches (a @ b) = fetches a @ fetches b"
  by (induction a rule: fetches.induct) simp_all

lemma sellerEntry_total:
  "\<exists>x w' t. sellerEntry c i w = (Inr x, w', t) \<and> entryFor i x
      \<and> fetches t = [(SellerModel, i, isPlaceholder x)]"
  by (cases "getSellerProfile c i w"; cases "fst (getSellerProfile c i w)")
     (auto simp: sellerEntry_def prog_defs call_defs)

lemma customerEntry_total:
  "\<exists>x w' t. customerEntry c i w = (Inr x, w', t) \<and> entryFor i x
      \<and> fetches t = [(CustomerModel, i, isPlaceholder x)]"
  by (cases "getCustomerProfile c i w"; cases "fst (getCustomerProfile c i w)")
     (auto simp: customerEntry_def prog_defs call_defs)

lemma mapAll_sellers:
  "\<exists>xs w' t. mapAll (sellerEntry c) ids w = (Inr xs, w', t) \<and> list_all2 entryFor ids xs
      \<and> fetches t = map (\<lambda>(i, x). (SellerModel, i, isPlaceholder x)) (zip ids xs)"
proof (induction ids arbitrary: w)
  case Nil
  show ?case by (simp add: ret_def)
next
  case (Cons i ids)
  obtain x w1 t1 where h: "sellerEntry c i w = (Inr x, w1, t1)" "entryFor i x"
      "fetches t1 = [(SellerModel, i, isPlaceholder x)]"
    using sellerEntry_total[of c i w] by blast
  obtain xs w2 t2 where t: "mapAll (sellerEntry c) ids w1 = (Inr xs, w2, t2)"
      "list_all2 entryFor ids xs"
      "fetches t2 = map (\<lambda>(i, x). (SellerModel, i, isPlaceholder x)) (zip ids xs)"
    using Cons.IH[of w1] by blast
  have "mapAll (sellerEntry c) (i # ids) w = (Inr (x # xs), w2, t1 @ t2)"
    using h(1) t(1) by (simp add: bnd_def ret_def)
  then show ?case using h t by (simp add: fetches_append)
qed

lemma mapAll_customers:
  "\<exists>xs w' t. mapAll (customerEntry c) ids w = (Inr xs, w', t) \<and> list_all2 entryFor ids xs
      \<and> fetches t = map (\<lambda>(i, x). (CustomerModel, i, isPlaceholder x)) (zip ids xs)"
proof (induction ids arbitrary: w)
  case Nil
  show ?case by (simp add: ret_def)
next
  case (Cons i ids)
  obtain x w1 t1 where h: "customerEntry c i w = (Inr x, w1, t1)" "entryFor i x"
      "fetches t1 = [(CustomerModel, i, isPlaceholder x)]"
    using customerEntry_total[of c i w] by blast
  obtain xs w2 t2 where t: "mapAll (customerEntry c) ids w1 = (Inr xs, w2, t2)"
      "list_all2 entryFor ids xs"
      "fetches t2 = map (\<lambda>(i, x). (CustomerModel, i, isPlaceholder x)) (zip ids xs)"
    using Cons.IH[of w1] by blast
  have "mapAll (customerEntry c) (i # ids) w = (Inr (x # xs), w2, t1 @ t2)"
    using h(1) t(1) by (simp add: bnd_def ret_def)
  then show ?case using h t by (simp add: fetches_append)
qed

lemma showNat_20: "showNat 20 = ''20''"
  by code_simp

lemma realtime_rejects_non_array:
  assumes "body_sellerIds req = NotAnArray \<or> body_customerIds req = NotAnArray"
  shows "getRealtimeUserData c req w =
     (Inr (Next ''Invalid input format. sellerIds and customerIds must be arrays'' 400), w, [])"
  using assms
  by (cases "body_sellerIds req"; cases "body_customerIds req")
     (auto simp: getRealtimeUserData_def prog_defs)

lemma realtime_rejects_too_many:
  assumes "orEmpty (body_sellerIds req) = Array ss" "orEmpty (body_customerIds req) = Array cs"
    and "length ss + length cs > 20"
  shows "getRealtimeUserData c req w =
     (Inr (Next ''Too many IDs requested. Maximum 20 total IDs allowed'' 400), w, [])"
  using assms
  by (simp add: getRealtimeUserData_def prog_defs MAX_IDS_def showNat_20)

lemma realtime_lists:
  assumes "orEmpty (body_sellerIds req) = Array ss" "orEmpty (body_customerIds req) = Array cs"
    and "length ss + length cs \<le> 20"
  shows "\<exists>sellers customers w' t.
     getRealtimeUserData c req w =
       (Inr (Json 200 (RealtimeBody sellers customers (responseDate req))), w', t)
     \<and> list_all2 entryFor ss sellers \<and> list_all2 entryFor cs customers
     \<and> fetches t = map (\<lambda>(i, x). (SellerModel, i, isPlaceholder x)) (zip ss sellers)
                   @ map (\<lambda>(i, x). (CustomerModel, i, isPlaceholder x)) (zip cs customers)"
proof -
  let ?log = "LogInfo (''Fetching real-time profile data for '' @ showNat (length ss)
                        @ '' sellers and '' @ showNat (length cs) @ '' customers'')"
  obtain xs w1 t1 where s: "mapAll (sellerEntry c) ss w = (Inr xs, w1, t1)"
      "list_all2 entryFor ss xs"
      "fetches t1 = map (\<lambda>(i, x). (SellerModel, i, isPlaceholder x)) (zip ss xs)"
    using mapAll_sellers[of c ss w] by blast
  obtain ys w2 t2 where cu: "mapAll (customerEntry c) cs w1 = (Inr ys, w2, t2)"
      "list_all2 entryFor cs ys"
      "fetches t2 = map (\<lambda>(i, x). (CustomerModel, i, isPlaceholder x)) (zip cs ys)"
    using mapAll_customers[of c cs w1] by blast
  have "getRealtimeUserData c req w =
       (Inr (Json 200 (RealtimeBody xs ys (responseDate req))), w2, ?log # t1 @ t2)"
    using assms s(1) cu(1)
    by (simp add: getRealtimeUserData_def prog_defs MAX_IDS_def)
  then show ?thesis using s cu by (simp add: fetches_append)
qed

text \<open>
  C9: \<^verbatim>\<open>getRealtimeUserData\<close> answers 400 when \<^verbatim>\<open>sellerIds\<close> or \<^verbatim>\<open>customerIds\<close> is given and is
  not an array, and 400 when the two arrays hold more than 20 identifiers together, in
  both cases without a single call or log entry. Within the limit it answers 200 with
  one entry for each identifier, in order: the profile, or the placeholder for that
  identifier exactly where the profile call threw.
\<close>

theorem realtime_listing_validates_and_degrades:
  "(body_sellerIds req = NotAnArray \<or> body_customerIds req = NotAnArray \<longrightarrow>
      getRealtimeUserData c req w =
        (Inr (Next ''Invalid input format. sellerIds and customerIds must be arrays'' 400), w, []))
   \<and> (orEmpty (body_sellerIds req) = Array ss \<longrightarrow> orEmpty (body_customerIds req) = Array cs \<longrightarrow>
        20 < length ss + length cs \<longrightarrow>
      getRealtimeUserData c req w =
        (Inr (Next ''Too many IDs requested. Maximum 20 total IDs allowed'' 400), w, []))
   \<and> (orEmpty (body_sellerIds req) = Array ss \<longrightarrow> orEmpty (body_customerIds req) = Array cs \<longrightarrow>
        length ss + length cs \<le> 20 \<longrightarrow>
      (\<exists>sellers customers.
         resultOf (getRealtimeUserData c req w)
           = Inr (Json 200 (RealtimeBody sellers customers (responseDate req)))
         \<and> list_all2 entryFor ss sellers \<and> list_all2 entryFor cs customers
         \<and> fetches (traceOf (getRealtimeUserData c req w))
             = map (\<lambda>(i, x). (SellerModel, i, isPlaceholder x)) (zip ss sellers)
               @ map (\<lambda>(i, x). (CustomerModel, i, isPlaceholder x)) (zip cs customers)))"
proof (intro conjI impI)
  assume "body_sellerIds req = NotAnArray \<or> body_customerIds req = NotAnArray"
  then show "getRealtimeUserData c req w =
        (Inr (Next ''Invalid input format. sellerIds and customerIds must be arrays'' 400), w, [])"
    by (rule realtime_rejects_non_array)
next
  assume "orEmpty (body_sellerIds req) = Array ss" "orEmpty (body_customerIds req) = Array cs"
    "20 < length ss + length cs"
  then show "getRealtimeUserData c req w =
        (Inr (Next ''Too many IDs requested. Maximum 20 total IDs allowed'' 400), w, [])"
    by (rule realtime_rejects_too_many)
next
  assume "orEmpty (body_sellerIds req) = Array ss" "orEmpty (body_customerIds req) = Array cs"
    "length ss + length cs \<le> 20"
  from realtime_lists[OF this, of c w]
  obtain sellers customers w' t where
    r: "getRealtimeUserData c req w =
       (Inr (Json 200 (RealtimeBody sellers customers (responseDate req))), w', t)"
    and e: "list_all2 entryFor ss sellers" "list_all2 entryFor cs customers"
    and f: "fetches t = map (\<lambda>(i, x). (SellerModel, i, isPlaceholder x)) (zip ss sellers)
                   @ map (\<lambda>(i, x). (CustomerModel, i, isPlaceholder x)) (zip cs customers)"
    by blast
  show "\<exists>sellers customers.
         resultOf (getRealtimeUserData c req w)
           = Inr (Json 200 (RealtimeBody sellers customers (responseDate req)))
         \<and> list_all2 entryFor ss sellers \<and> list_all2 entryFor cs customers
         \<and> fetches (traceOf (getRealtimeUserData c req w))
             = map (\<lambda>(i, x). (SellerModel, i, isPlaceholder x)) (zip ss sellers)
               @ map (\<lambda>(i, x). (CustomerModel, i, isPlaceholder x)) (zip cs customers)"
    using r e f by (auto simp: resultOf_def traceOf_def)
qed


theorem realtime_listing_witness:
  "getRealtimeUserData (storeCollab loaderDown)
      \<lparr> body_sellerIds = NotAnArray, body_customerIds = Missing, responseDate = 7 \<rparr> coldWorld
     = (Inr (Next ''Invalid input format. sellerIds and customerIds must be arrays'' 400), coldWorld, [])
   \<and> 20 < length (replicate 15 ''s1'') + length (replicate 6 ''c1'')
   \<and> getRealtimeUserData (storeCollab loaderDown)
      \<lparr> body_sellerIds = Array (replicate 15 ''s1''), body_customerIds = Array (replicate 6 ''c1''),
        responseDate = 7 \<rparr> coldWorld
     = (Inr (Next ''Too many IDs requested. Maximum 20 total IDs allowed'' 400), coldWorld, [])
   \<and> resultOf (getRealtimeUserData (storeCollab loaderDown)
      \<lparr> body_sellerIds = Array [''s1'', ''s2''], body_customerIds = Missing, responseDate = 7 \<rparr> world0)
     = Inr (Json 200 (RealtimeBody
         [Fetched (Some (sellerS1\<lparr>s_fromCache := Some True\<rparr>)),
          Placeholder ''s2'' ''Failed to fetch real-time data''] [] 7))
   \<and> fetches (traceOf (getRealtimeUserData (storeCollab loaderDown)
      \<lparr> body_sellerIds = Array [''s1'', ''s2''], body_customerIds = Missing, responseDate = 7 \<rparr> world0))
     = [(SellerModel, ''s1'', False), (SellerModel, ''s2'', True)]"
proof -
  let ?bad = "\<lparr> body_sellerIds = NotAnArray, body_customerIds = Missing, responseDate = 7 \<rparr>"
  let ?many = "\<lparr> body_sellerIds = Array (replicate 15 ''s1''),
                  body_customerIds = Array (replicate 6 ''c1''), responseDate = 7 \<rparr>"
  let ?two = "\<lparr> body_sellerIds = Array [''s1'', ''s2''], body_customerIds = Missing,
                 responseDate = 7 \<rparr>"
  have a: "getRealtimeUserData (storeCollab loaderDown) ?bad coldWorld
     = (Inr (Next ''Invalid input format. sellerIds and customerIds must be arrays'' 400), coldWorld, [])"
    using realtime_listing_validates_and_degrades[where req = ?bad and c = "storeCollab loaderDown"
        and w = coldWorld]
    by simp
  have b: "getRealtimeUserData (storeCollab loaderDown) ?many coldWorld
     = (Inr (Next ''Too many IDs requested. Maximum 20 total IDs allowed'' 400), coldWorld, [])"
    using realtime_listing_validates_and_degrades[where req = ?many and ss = "replicate 15 ''s1''"
        and cs = "replicate 6 ''c1''" and c = "storeCollab loaderDown" and w = coldWorld]
    by simp
  have n: "showNat (Suc (Suc 0)) = ''2''" "showNat 0 = ''0''" by code_simp+
  have c: "resultOf (getRealtimeUserData (storeCollab loaderDown) ?two world0)
     = Inr (Json 200 (RealtimeBody
         [Fetched (Some (sellerS1\<lparr>s_fromCache := Some True\<rparr>)),
          Placeholder ''s2'' ''Failed to fetch real-time data''] [] 7))"
    "traceOf (getRealtimeUserData (storeCollab loaderDown) ?two world0)
     = [LogInfo ''Fetching real-time profile data for 2 sellers and 0 customers'',
        Call (GetProfile SellerModel ''s1'') Returned,
        Call (GetProfile SellerModel ''s2'') (Threw (Error ''ProfileUnavailable'')),
        LogWarn ''Failed to get real-time seller profile for s2: ProfileUnavailable'']"
    by (simp_all add: getRealtimeUserData_def sellerEntry_def customerEntry_def prog_defs
          call_defs store_defs example_defs MAX_IDS_def n resultOf_def traceOf_def Let_def)
  show ?thesis using a b c by simp
qed

subsection \<open>The default filter\<close>

lemma preFind_falsy:
  "\<not> truthy (q_skipDefaultFilter q) \<Longrightarrow> \<not> conditionTruthy (q_status q) \<Longrightarrow>
     q_status (preFind q) = NotEqual ''suspended''"
  by (simp add: preFind_def)

lemma execQuery_falsy:
  assumes "findFamily (q_op q)" "\<not> truthy (q_skipDefaultFilter q)" "\<not> conditionTruthy (q_status q)"
  shows "execQuery q docs = filter (\<lambda>d. s_status d \<noteq> ''suspended'' \<and> q_others q d) docs"
  using assms by (simp add: execQuery_def preFind_def)

text \<open>
  C10: a query of the find family on the seller model that has no condition on the
  status and does not set \<^verbatim>\<open>skipDefaultFilter\<close> gets the condition
  \<^verbatim>\<open>status: { $ne: 'suspended' }\<close> from the hook, and its result is the documents that
  are not suspended and meet its other conditions: no suspended seller is in it.
\<close>

theorem default_filter_excludes_suspended:
  assumes "findFamily (q_op q)" and "q_status q = Unset" and "q_skipDefaultFilter q = Undefined"
  shows "q_status (preFind q) = NotEqual ''suspended''
     \<and> execQuery q docs = filter (\<lambda>d. s_status d \<noteq> ''suspended'' \<and> q_others q d) docs
     \<and> filter (\<lambda>d. s_status d = ''suspended'') (execQuery q docs) = []"
proof -
  have f: "\<not> truthy (q_skipDefaultFilter q)" "\<not> conditionTruthy (q_status q)"
    using assms by simp_all
  have e: "execQuery q docs = filter (\<lambda>d. s_status d \<noteq> ''suspended'' \<and> q_others q d) docs"
    using assms(1) f by (rule execQuery_falsy)
  have "filter (\<lambda>d. s_status d = ''suspended'') (execQuery q docs) = []"
    unfolding e by (simp add: filter_empty_conv)
  then show ?thesis using e f by (simp add: preFind_falsy)
qed

theorem default_filter_witness:
  "findFamily (q_op plainFind) \<and> q_status plainFind = Unset \<and> q_skipDefaultFilter plainFind = Undefined
   \<and> execQuery plainFind [sellerS1, sellerS1\<lparr>s_id := ''s2'', s_status := ''suspended''\<rparr>] = [sellerS1]
   \<and> execQuery (plainFind\<lparr>q_op := ''countDocuments''\<rparr>)
        [sellerS1, sellerS1\<lparr>s_id := ''s2'', s_status := ''suspended''\<rparr>]
       = [sellerS1, sellerS1\<lparr>s_id := ''s2'', s_status := ''suspended''\<rparr>]"
proof -
  have h: "findFamily (q_op plainFind)" "q_status plainFind = Unset"
    "q_skipDefaultFilter plainFind = Undefined"
    by (simp_all add: plainFind_def findFamily_def)
  have other: "execQuery (plainFind\<lparr>q_op := ''countDocuments''\<rparr>)
        [sellerS1, sellerS1\<lparr>s_id := ''s2'', s_status := ''suspended''\<rparr>]
       = [sellerS1, sellerS1\<lparr>s_id := ''s2'', s_status := ''suspended''\<rparr>]"
    by (simp add: execQuery_def plainFind_def findFamily_def)
  from default_filter_excludes_suspended[OF h,
      of "[sellerS1, sellerS1\<lparr>s_id := ''s2'', s_status := ''suspended''\<rparr>]"]
  show ?thesis using h other by (simp add: plainFind_def sellerS1_def)
qed

subsection \<open>Invalidation and the profile that is broadcast\<close>

text \<open>
  C1: the code does not do what the claim says. The cache holds the profile of seller
  \<open>s1\<close> with the status \<open>pending\<close>, and the status is set to \<open>active\<close>.
  \<^verbatim>\<open>updateSellerStatus\<close> calls \<^verbatim>\<open>invalidateCachePattern\<close> and does not await it, so the read
  of the profile is requested of the cache store before the delete is acknowledged,
  whichever of the two the store carries out first. When the store serves the read
  first, the profile for the admin room is the cached one: \<open>pending\<close> is broadcast after
  \<open>active\<close> was saved. \<^verbatim>\<open>updateCustomerStatus\<close> does the same for customer \<open>c1\<close>.
\<close>

theorem invalidation_not_awaited:
  "cacheEntries world0 ''seller:s1:profile'' = Some (SellerProfile (Some sellerS1), 50)
   \<and> s_status sellerS1 = ''pending''
   \<and> resultOf (updateSellerStatus (storeCollab lateDelete) activateS1 world0)
       = Inr (Json 200 (SellerBody (setSellerStatus activateS1 sellerS1)))
   \<and> s_status (setSellerStatus activateS1 sellerS1) = ''active''
   \<and> filter isCall (take 6 (traceOf (updateSellerStatus (storeCollab lateDelete) activateS1 world0)))
       = [Call (FindById SellerModel ''s1'') Returned,
          Call (Save SellerModel ''s1'') Returned,
          Call (InvalidateCachePattern ''seller:s1:*'') Pending,
          Call GetIO Returned,
          Call (Emit ''admin-dashboard'' ''seller:profile:updated''
                  (SellerStatusChanged ''s1'' ''active'' ''admin1'' 10)) Returned,
          Call (GetProfile SellerModel ''s1'') Returned]
   \<and> \<not> fetchesGuarded ''seller:s1:*''
          (traceOf (updateSellerStatus (storeCollab lateDelete) activateS1 world0))
   \<and> cacheLog (worldOf (updateSellerStatus (storeCollab lateDelete) activateS1 world0))
       = [DeleteRequested ''seller:s1:*'', ReadRequested ''seller:s1:profile'',
          DeleteAcknowledged ''seller:s1:*'', ReadRequested ''seller:s1:profile'']
   \<and> emittedStatuses (traceOf (updateSellerStatus (storeCollab lateDelete) activateS1 world0))
       = [Some ''pending'', Some ''active'']
   \<and> cacheLog (worldOf (updateSellerStatus (storeCollab noFaults) activateS1 world0))
       = [DeleteRequested ''seller:s1:*'', ReadRequested ''seller:s1:profile'',
          DeleteAcknowledged ''seller:s1:*'', ReadRequested ''seller:s1:profile'']
   \<and> emittedStatuses (traceOf (updateSellerStatus (storeCollab noFaults) activateS1 world0))
       = [Some ''active'', Some ''active'']
   \<and> cacheLog (worldOf (updateCustomerStatus (storeCollab lateDelete) activateC1 world0))
       = [DeleteRequested ''customer:c1:*'', ReadRequested ''customer:c1:profile'',
          DeleteAcknowledged ''customer:c1:*'', ReadRequested ''customer:c1:profile'']
   \<and> emittedStatuses (traceOf (updateCustomerStatus (storeCollab lateDelete) activateC1 world0))
       = [Some ''inactive'', Some ''active'']"
  by (simp add: updateSellerStatus_def sellerBroadcast_def updateCustomerStatus_def
        customerBroadcast_def prog_defs call_defs store_defs example_defs resultOf_def
        worldOf_def traceOf_def Let_def)

text \<open>
  When the cache store fails the delete, the spec has the failure swallowed, and the
  old profile is what the two rooms of the seller receive.
\<close>

lemma stale_profile_when_delete_fails:
  "deleteFault deleteDown
   \<and> cacheLog (worldOf (updateSellerStatus (storeCollab deleteDown) activateS1 world0))
       = [DeleteRequested ''seller:s1:*'', ReadRequested ''seller:s1:profile'',
          DeleteFailed ''seller:s1:*'', ReadRequested ''seller:s1:profile'']
   \<and> emittedStatuses (traceOf (updateSellerStatus (storeCollab deleteDown) activateS1 world0))
       = [Some ''pending'', Some ''pending'']"
  by (simp add: updateSellerStatus_def sellerBroadcast_def prog_defs call_defs store_defs
        example_defs worldOf_def traceOf_def Let_def)

end
